theory Spec2Isabelle
  imports Complex_Main "HOL-Library.Word"
begin

section \<open>Python and numpy primitives used by obp/ope/meta.py\<close>

text \<open>
  The module is Python. An exception is a value of \<open>py_error\<close>; a computation that may
  raise returns \<open>py_error + 'a\<close> with \<open>Inl\<close> for the exception. \<open>Raised\<close> stands for
  an exception thrown inside a collaborator (an estimator or the regression model); the
  module has no \<open>try\<close>, so such an exception leaves the calling method unchanged.

  Logging and warnings are not modelled.
\<close>

datatype py_error = IndexError | ValueError | ZeroDivisionError | TypeError | Raised string

text \<open>
  A float is finite, an infinity or NaN. A finite float is a real here: rounding and
  overflow are not modelled. A number that reaches the module is a float of the language
  (\<open>Python_float\<close>, which also stands for a Python \<open>int\<close>) or a \<open>numpy.float64\<close>. The
  annotations of the module say \<open>float\<close>; the estimators of the package return the mean of
  an array, a \<open>numpy.float64\<close>. The two kinds differ in division by zero: Python raises
  \<open>ZeroDivisionError\<close> whatever the dividend, numpy returns an infinity or NaN.
\<close>

datatype float_value = Finite real | PosInf | NegInf | NaN

datatype number = Python_float float_value | Numpy_float64 float_value

definition float_of :: "number \<Rightarrow> float_value" where
  "float_of x = (case x of Python_float v \<Rightarrow> v | Numpy_float64 v \<Rightarrow> v)"

definition is_numpy :: "number \<Rightarrow> bool" where
  "is_numpy x = (case x of Python_float v \<Rightarrow> False | Numpy_float64 v \<Rightarrow> True)"

fun float_sub :: "float_value \<Rightarrow> float_value \<Rightarrow> float_value" where
  "float_sub (Finite a) (Finite b) = Finite (a - b)"
| "float_sub (Finite a) PosInf = NegInf"
| "float_sub (Finite a) NegInf = PosInf"
| "float_sub PosInf (Finite b) = PosInf"
| "float_sub PosInf NegInf = PosInf"
| "float_sub NegInf (Finite b) = NegInf"
| "float_sub NegInf PosInf = NegInf"
| "float_sub x y = NaN"

text \<open>\<open>x - y\<close>: the difference is a \<open>numpy.float64\<close> as soon as one operand is.\<close>

definition py_sub :: "number \<Rightarrow> number \<Rightarrow> number" where
  "py_sub x y =
     (if is_numpy x \<or> is_numpy y then Numpy_float64 (float_sub (float_of x) (float_of y))
      else Python_float (float_sub (float_of x) (float_of y)))"

text \<open>
  \<open>np.abs(x / y)\<close>, always a \<open>numpy.float64\<close>. \<open>float_abs_div\<close> is the absolute value of the
  IEEE quotient; the sign of a zero divisor decides only the sign of an infinite quotient,
  which the absolute value discards, so the two zeros are one here. When both operands are
  floats of the language and the divisor is zero the division raises before \<open>np.abs\<close> is
  called.
\<close>

fun float_abs_div :: "float_value \<Rightarrow> float_value \<Rightarrow> float_value" where
  "float_abs_div (Finite a) (Finite b) =
     (if b = 0 then (if a = 0 then NaN else PosInf) else Finite \<bar>a / b\<bar>)"
| "float_abs_div (Finite a) PosInf = Finite 0"
| "float_abs_div (Finite a) NegInf = Finite 0"
| "float_abs_div PosInf (Finite b) = PosInf"
| "float_abs_div NegInf (Finite b) = PosInf"
| "float_abs_div x y = NaN"

definition np_abs_truediv :: "number \<Rightarrow> number \<Rightarrow> py_error + float_value" where
  "np_abs_truediv x y =
     (if \<not> is_numpy x \<and> \<not> is_numpy y \<and> float_of y = Finite 0 then Inl ZeroDivisionError
      else Inr (float_abs_div (float_of x) (float_of y)))"

text \<open>
  A Python \<open>dict\<close> keeps insertion order, and assigning to a key that is present replaces
  the value where the key stands: an association list with distinct keys.
\<close>

fun dict_setitem :: "('k \<times> 'v) list \<Rightarrow> 'k \<Rightarrow> 'v \<Rightarrow> ('k \<times> 'v) list" where
  "dict_setitem [] k v = [(k, v)]"
| "dict_setitem ((k', v') # d) k v =
     (if k' = k then (k, v) # d else (k', v') # dict_setitem d k v)"

definition dict_keys :: "('k \<times> 'v) list \<Rightarrow> 'k list" where
  "dict_keys d = map fst d"

definition dict_get :: "('k \<times> 'v) list \<Rightarrow> 'k \<Rightarrow> 'v option" where
  "dict_get d k = map_of d k"

text \<open>
  numpy: a one-dimensional array is a list, a two-dimensional array a list of rows.
  \<open>np_arange n\<close> is \<open>0, ..., n - 1\<close> (empty when \<open>n \<le> 0\<close>). An index \<open>i\<close> into an axis of
  size \<open>n\<close> is valid when \<open>- n \<le> i < n\<close>, a negative one counting from the end. numpy
  converts an index array to its index type \<open>intp\<close>, the signed 64-bit integer: an element of
  an index array is a 64-bit word read as a signed number (\<open>sint\<close>), so that the \<open>uint64\<close>
  \<open>2 ^ 64 - 1\<close> indexes like \<open>- 1\<close>.
\<close>

definition np_arange :: "int \<Rightarrow> int list" where
  "np_arange n = map int [0..<nat n]"

definition np_index :: "nat \<Rightarrow> int \<Rightarrow> py_error + nat" where
  "np_index n i =
     (if 0 \<le> i \<and> i < int n then Inr (nat i)
      else if - int n \<le> i \<and> i < 0 then Inr (nat (int n + i))
      else Inl IndexError)"

text \<open>\<open>a[i, j]\<close> for a two-dimensional array.\<close>

definition np_item2 :: "'a list list \<Rightarrow> int \<Rightarrow> int \<Rightarrow> py_error + 'a" where
  "np_item2 a i j =
     (case np_index (length a) i of
        Inl e \<Rightarrow> Inl e
      | Inr r \<Rightarrow>
          (case np_index (length (a ! r)) j of
             Inl e \<Rightarrow> Inl e
           | Inr c \<Rightarrow> Inr (a ! r ! c)))"

text \<open>
  Broadcasting of two one-dimensional arrays: equal lengths pair up, an array of length
  one is repeated, anything else does not broadcast (\<open>None\<close>).
\<close>

definition np_broadcast :: "'a list \<Rightarrow> 'b list \<Rightarrow> ('a \<times> 'b) list option" where
  "np_broadcast xs ys =
     (if length xs = length ys then Some (zip xs ys)
      else if length xs = 1 then Some (map (\<lambda>y. (hd xs, y)) ys)
      else if length ys = 1 then Some (map (\<lambda>x. (x, hd ys)) xs)
      else None)"

fun sequence_results :: "(py_error + 'a) list \<Rightarrow> py_error + 'a list" where
  "sequence_results [] = Inr []"
| "sequence_results (r # rs) =
     (case r of
        Inl e \<Rightarrow> Inl e
      | Inr x \<Rightarrow> (case sequence_results rs of Inl e \<Rightarrow> Inl e | Inr xs \<Rightarrow> Inr (x # xs)))"

text \<open>
  \<open>a[rows, cols]\<close> with two integer index arrays: the index arrays are broadcast, every
  pair is bounds-checked, and the result has one element per pair. Index arrays that do
  not broadcast raise \<open>IndexError\<close>.
\<close>

definition np_take2 :: "'a list list \<Rightarrow> int list \<Rightarrow> int list \<Rightarrow> py_error + 'a list" where
  "np_take2 a rows cols =
     (case np_broadcast rows cols of
        None \<Rightarrow> Inl IndexError
      | Some ps \<Rightarrow> sequence_results (map (\<lambda>(i, j). np_item2 a i j) ps))"

text \<open>
  \<open>xs == ys\<close> on one-dimensional arrays compares element by element after broadcasting.
  Operands that do not broadcast raise \<open>ValueError\<close> (numpy 1.25 and later; earlier
  versions returned the scalar \<open>False\<close> with a warning). No theorem below depends on
  that branch.
\<close>

definition np_equal :: "'a list \<Rightarrow> 'a list \<Rightarrow> py_error + bool list" where
  "np_equal xs ys =
     (case np_broadcast xs ys of
        None \<Rightarrow> Inl ValueError
      | Some ps \<Rightarrow> Inr (map (\<lambda>(x, y). x = y) ps))"

section \<open>Data model\<close>

text \<open>
  \<open>BanditFeedback\<close> is declared in obp/dataset, outside the module; its keys are those of
  the class docstring (line 58) and of section 3 of the specification. The module reads
  \<open>n_rounds\<close>, \<open>action\<close>, \<open>position\<close>, \<open>reward\<close> and \<open>pscore\<close>.
\<close>

record BanditFeedback =
  n_rounds :: int
  n_actions :: int
  action :: "int list"
  position :: "64 word list"
  reward :: "real list"
  pscore :: "real list"
  contexts :: "real list list"

text \<open>The values of the dictionary handed to the estimators are numpy arrays.\<close>

datatype ndarray =
    FloatArray "real list"
  | BoolArray "bool list"
  | FloatArray3 "real list list list"

type_synonym estimator_inputs = "(string \<times> ndarray) list"

text \<open>
  \<open>BaseOffPolicyEstimator\<close> (obp/ope/estimators, outside the module) is the interface the
  module calls: a name and two operations on the keyword arguments, each of which may
  raise. An estimator is assumed to be a function of its arguments.
\<close>

record BaseOffPolicyEstimator =
  estimator_name :: string
  estimate_policy_value :: "estimator_inputs \<Rightarrow> py_error + number"
  estimate_interval ::
    "estimator_inputs \<Rightarrow> real \<Rightarrow> int \<Rightarrow> int option \<Rightarrow> py_error + (string \<times> number) list"

text \<open>
  \<open>RegressionModel\<close> (obp/ope/regression_model) and \<open>check_is_fitted\<close> (obp/utils) are
  outside the module too. \<open>'m\<close> is the state of a regression model object; \<open>fit\<close> changes
  the object it is called on, so it returns the new state; \<open>predict\<close> is a function of the
  state and its arguments.
\<close>

record 'm RegressionModel =
  check_is_fitted :: "'m \<Rightarrow> bool"
  fit :: "'m \<Rightarrow> BanditFeedback \<Rightarrow> real list list option \<Rightarrow> py_error + 'm"
  predict ::
    "'m \<Rightarrow> BanditFeedback \<Rightarrow> real list list option \<Rightarrow> int list list
       \<Rightarrow> py_error + real list list list"

text \<open>
  The dataclass (lines 84 to 87) with the dictionary that \<open>__post_init__\<close> stores in the
  attribute \<open>ope_estimators_\<close> (line 105), here the field \<open>ope_estimators_dict\<close>.
\<close>

record 'm OffPolicyEvaluation =
  bandit_feedback :: BanditFeedback
  ope_estimators :: "BaseOffPolicyEstimator list"
  action_context :: "real list list option"
  regression_model :: "'m option"
  ope_estimators_dict :: "(string \<times> BaseOffPolicyEstimator) list"

text \<open>
  Every call the module makes to a collaborator is recorded, in order, with its arguments.
  A method of the class takes \<open>self\<close> and returns the calls it made, \<open>self\<close> afterwards and
  its result or the exception it raised.
\<close>

datatype event =
    Call_check_is_fitted
  | Call_fit BanditFeedback "real list list option"
  | Call_predict BanditFeedback "real list list option" "int list list"
  | Call_estimate_policy_value string estimator_inputs
  | Call_estimate_interval string estimator_inputs real int "int option"

section \<open>The class OffPolicyEvaluation\<close>

subsection \<open>Construction (lines 89 to 107)\<close>

fun register_estimators ::
  "(string \<times> BaseOffPolicyEstimator) list \<Rightarrow> BaseOffPolicyEstimator list
     \<Rightarrow> (string \<times> BaseOffPolicyEstimator) list" where
  "register_estimators d [] = d"
| "register_estimators d (estimator # rest) =
     register_estimators (dict_setitem d (estimator_name estimator) estimator) rest"

definition post_init ::
  "'m RegressionModel \<Rightarrow> BanditFeedback \<Rightarrow> BaseOffPolicyEstimator list
     \<Rightarrow> real list list option \<Rightarrow> 'm option
     \<Rightarrow> event list \<times> (py_error + 'm OffPolicyEvaluation)" where
  "post_init R fb ests ctx rm =
     (let finish = (\<lambda>rm'.
            \<lparr>bandit_feedback = fb, ope_estimators = ests, action_context = ctx,
             regression_model = rm', ope_estimators_dict = register_estimators [] ests\<rparr>)
      in case rm of
           Some m \<Rightarrow>
             if check_is_fitted R m then ([Call_check_is_fitted], Inr (finish (Some m)))
             else (case fit R m fb ctx of
                     Inl e \<Rightarrow> ([Call_check_is_fitted, Call_fit fb ctx], Inl e)
                   | Inr m' \<Rightarrow> ([Call_check_is_fitted, Call_fit fb ctx], Inr (finish (Some m'))))
         | None \<Rightarrow> ([], Inr (finish None)))"

subsection \<open>The estimator inputs (lines 109 to 121)\<close>

text \<open>The right-hand side of the assignment on lines 112 to 114.\<close>

definition action_match_of :: "BanditFeedback \<Rightarrow> int list list \<Rightarrow> py_error + bool list" where
  "action_match_of fb selected_actions =
     (case np_take2 selected_actions (np_arange (n_rounds fb)) (map sint (position fb)) of
        Inl e \<Rightarrow> Inl e
      | Inr chosen \<Rightarrow> np_equal (action fb) chosen)"

definition create_estimator_inputs ::
  "'m RegressionModel \<Rightarrow> 'm OffPolicyEvaluation \<Rightarrow> int list list
     \<Rightarrow> event list \<times> 'm OffPolicyEvaluation \<times> (py_error + estimator_inputs)" where
  "create_estimator_inputs R self selected_actions =
     (let fb = bandit_feedback self;
          inputs0 = [(''reward'', FloatArray (reward fb)), (''pscore'', FloatArray (pscore fb))]
      in case action_match_of fb selected_actions of
           Inl e \<Rightarrow> ([], self, Inl e)
         | Inr am \<Rightarrow>
             (let inputs1 = dict_setitem inputs0 ''action_match'' (BoolArray am)
              in case regression_model self of
                   None \<Rightarrow> ([], self, Inr inputs1)
                 | Some m \<Rightarrow>
                     (let call = Call_predict fb (action_context self) selected_actions
                      in case predict R m fb (action_context self) selected_actions of
                           Inl e \<Rightarrow> ([call], self, Inl e)
                         | Inr est \<Rightarrow>
                             ([call], self,
                              Inr (dict_setitem inputs1 ''estimated_rewards_by_reg_model''
                                     (FloatArray3 est))))))"

text \<open>The feedback and the selected actions of test scenario 7 of the specification.\<close>

definition scenario_feedback :: BanditFeedback where
  "scenario_feedback =
     \<lparr>n_rounds = 3, n_actions = 3, action = [1, 0, 2], position = [0, 0, 0],
      reward = [1, 0, 1], pscore = [1/2, 1/2, 1/2], contexts = [[], [], []]\<rparr>"

definition scenario_selected_actions :: "int list list" where
  "scenario_selected_actions = [[1, 2], [0, 1], [2, 0]]"

subsection \<open>Point estimates (lines 123 to 142)\<close>

text \<open>The loop of lines 139 and 140 over the items of the registry, stopping at an exception.\<close>

fun policy_value_loop ::
  "estimator_inputs \<Rightarrow> (string \<times> BaseOffPolicyEstimator) list \<Rightarrow> (string \<times> number) list
     \<Rightarrow> event list \<times> (py_error + (string \<times> number) list)" where
  "policy_value_loop inputs [] d = ([], Inr d)"
| "policy_value_loop inputs ((name, estimator) # rest) d =
     (case estimate_policy_value estimator inputs of
        Inl e \<Rightarrow> ([Call_estimate_policy_value name inputs], Inl e)
      | Inr v \<Rightarrow>
          (case policy_value_loop inputs rest (dict_setitem d name v) of
             (calls, r) \<Rightarrow> (Call_estimate_policy_value name inputs # calls, r)))"

definition estimate_policy_values ::
  "'m RegressionModel \<Rightarrow> 'm OffPolicyEvaluation \<Rightarrow> int list list
     \<Rightarrow> event list \<times> 'm OffPolicyEvaluation \<times> (py_error + (string \<times> number) list)" where
  "estimate_policy_values R self selected_actions =
     (case create_estimator_inputs R self selected_actions of
        (calls, self1, Inl e) \<Rightarrow> (calls, self1, Inl e)
      | (calls, self1, Inr inputs) \<Rightarrow>
          (case policy_value_loop inputs (ope_estimators_dict self1) [] of
             (calls2, r) \<Rightarrow> (calls @ calls2, self1, r)))"

subsection \<open>Interval estimates (lines 144 to 177)\<close>

fun interval_loop ::
  "estimator_inputs \<Rightarrow> real \<Rightarrow> int \<Rightarrow> int option
     \<Rightarrow> (string \<times> BaseOffPolicyEstimator) list \<Rightarrow> (string \<times> (string \<times> number) list) list
     \<Rightarrow> event list \<times> (py_error + (string \<times> (string \<times> number) list) list)" where
  "interval_loop inputs alpha n_bootstrap_samples random_state [] d = ([], Inr d)"
| "interval_loop inputs alpha n_bootstrap_samples random_state ((name, estimator) # rest) d =
     (let call = Call_estimate_interval name inputs alpha n_bootstrap_samples random_state
      in case estimate_interval estimator inputs alpha n_bootstrap_samples random_state of
           Inl e \<Rightarrow> ([call], Inl e)
         | Inr v \<Rightarrow>
             (case interval_loop inputs alpha n_bootstrap_samples random_state rest
                     (dict_setitem d name v) of
                (calls, r) \<Rightarrow> (call # calls, r)))"

definition estimate_intervals ::
  "'m RegressionModel \<Rightarrow> 'm OffPolicyEvaluation \<Rightarrow> int list list \<Rightarrow> real \<Rightarrow> int \<Rightarrow> int option
     \<Rightarrow> event list \<times> 'm OffPolicyEvaluation
         \<times> (py_error + (string \<times> (string \<times> number) list) list)" where
  "estimate_intervals R self selected_actions alpha n_bootstrap_samples random_state =
     (case create_estimator_inputs R self selected_actions of
        (calls, self1, Inl e) \<Rightarrow> (calls, self1, Inl e)
      | (calls, self1, Inr inputs) \<Rightarrow>
          (case interval_loop inputs alpha n_bootstrap_samples random_state
                  (ope_estimators_dict self1) [] of
             (calls2, r) \<Rightarrow> (calls @ calls2, self1, r)))"

subsection \<open>The two tables (lines 179 to 218)\<close>

text \<open>
  A pandas \<open>DataFrame\<close> is its row labels, its column labels and its cells, row by row, the
  cells being floats; a cell that no value was given for is NaN. \<open>pd_DataFrame_row d label\<close> is
  \<open>pd.DataFrame(d, index=[label])\<close> for a dictionary of scalars: one row, one column per
  key. \<open>pd_DataFrame_columns dd\<close> is \<open>pd.DataFrame(dd)\<close> for a dictionary of
  dictionaries: one column per outer key, one row per inner key. The order pandas gives
  the inner keys is taken to be that of first appearance; no theorem below depends on it.
  \<open>pd_T\<close> is the transpose.
\<close>

record DataFrame =
  df_index :: "string list"
  df_columns :: "string list"
  df_cells :: "float_value list list"

definition pd_DataFrame_row :: "(string \<times> number) list \<Rightarrow> string \<Rightarrow> DataFrame" where
  "pd_DataFrame_row d label =
     \<lparr>df_index = [label], df_columns = map fst d, df_cells = [map (\<lambda>(k, v). float_of v) d]\<rparr>"

fun first_appearances :: "'a list \<Rightarrow> 'a list \<Rightarrow> 'a list" where
  "first_appearances seen [] = seen"
| "first_appearances seen (k # ks) =
     first_appearances (if k \<in> set seen then seen else seen @ [k]) ks"

definition pd_DataFrame_columns :: "(string \<times> (string \<times> number) list) list \<Rightarrow> DataFrame" where
  "pd_DataFrame_columns dd =
     (let labels = first_appearances [] (concat (map (\<lambda>(name, inner). map fst inner) dd))
      in \<lparr>df_index = labels, df_columns = map fst dd,
          df_cells =
            map (\<lambda>k. map (\<lambda>(name, inner).
                          case map_of inner k of None \<Rightarrow> NaN | Some v \<Rightarrow> float_of v) dd)
              labels\<rparr>)"

definition pd_T :: "DataFrame \<Rightarrow> DataFrame" where
  "pd_T df =
     \<lparr>df_index = df_columns df, df_columns = df_index df,
      df_cells = map (\<lambda>j. map (\<lambda>row. row ! j) (df_cells df)) [0..<length (df_columns df)]\<rparr>"

definition summarize_off_policy_estimates ::
  "'m RegressionModel \<Rightarrow> 'm OffPolicyEvaluation \<Rightarrow> int list list \<Rightarrow> real \<Rightarrow> int \<Rightarrow> int option
     \<Rightarrow> event list \<times> 'm OffPolicyEvaluation \<times> (py_error + DataFrame \<times> DataFrame)" where
  "summarize_off_policy_estimates R self selected_actions alpha n_bootstrap_samples random_state =
     (case estimate_policy_values R self selected_actions of
        (calls, self1, Inl e) \<Rightarrow> (calls, self1, Inl e)
      | (calls, self1, Inr values) \<Rightarrow>
          (let policy_value_df = pd_DataFrame_row values ''estimated_policy_value''
           in case estimate_intervals R self1 selected_actions alpha n_bootstrap_samples
                     random_state of
                (calls2, self2, Inl e) \<Rightarrow> (calls @ calls2, self2, Inl e)
              | (calls2, self2, Inr intervals) \<Rightarrow>
                  (let policy_value_interval_df = pd_DataFrame_columns intervals
                   in (calls @ calls2, self2,
                       Inr (pd_T policy_value_df, pd_T policy_value_interval_df)))))"

subsection \<open>Relative estimation error (lines 274 to 331)\<close>

text \<open>
  The loop of lines 305 to 308. The relative error of an estimator is stored once the
  expression of line 308 has a value; an exception, of the estimator or of the division,
  ends the loop.
\<close>

fun relative_error_loop ::
  "estimator_inputs \<Rightarrow> number \<Rightarrow> (string \<times> BaseOffPolicyEstimator) list
     \<Rightarrow> (string \<times> float_value) list
     \<Rightarrow> event list \<times> (py_error + (string \<times> float_value) list)" where
  "relative_error_loop inputs ground_truth_policy_value [] d = ([], Inr d)"
| "relative_error_loop inputs ground_truth_policy_value ((name, estimator) # rest) d =
     (case estimate_policy_value estimator inputs of
        Inl e \<Rightarrow> ([Call_estimate_policy_value name inputs], Inl e)
      | Inr estimated_policy_value \<Rightarrow>
          (case np_abs_truediv (py_sub estimated_policy_value ground_truth_policy_value)
                  ground_truth_policy_value of
             Inl e \<Rightarrow> ([Call_estimate_policy_value name inputs], Inl e)
           | Inr q \<Rightarrow>
               (case relative_error_loop inputs ground_truth_policy_value rest
                       (dict_setitem d name q) of
                  (calls, r) \<Rightarrow> (Call_estimate_policy_value name inputs # calls, r))))"

definition evaluate_performance_of_estimators ::
  "'m RegressionModel \<Rightarrow> 'm OffPolicyEvaluation \<Rightarrow> int list list \<Rightarrow> number
     \<Rightarrow> event list \<times> 'm OffPolicyEvaluation \<times> (py_error + (string \<times> float_value) list)" where
  "evaluate_performance_of_estimators R self selected_actions ground_truth_policy_value =
     (case create_estimator_inputs R self selected_actions of
        (calls, self1, Inl e) \<Rightarrow> (calls, self1, Inl e)
      | (calls, self1, Inr inputs) \<Rightarrow>
          (case relative_error_loop inputs ground_truth_policy_value (ope_estimators_dict self1) [] of
             (calls2, r) \<Rightarrow> (calls @ calls2, self1, r)))"

text \<open>
  \<open>summarize_estimators_comparison\<close> (lines 312 to 331) calls
  \<open>evaluate_performance_of_estimators\<close> without its required argument
  \<open>ground_truth_policy_value\<close>: Python raises \<open>TypeError\<close> at the call, before the body of
  the callee runs.
\<close>

definition summarize_estimators_comparison ::
  "'m RegressionModel \<Rightarrow> 'm OffPolicyEvaluation \<Rightarrow> int list list
     \<Rightarrow> event list \<times> 'm OffPolicyEvaluation \<times> (py_error + DataFrame)" where
  "summarize_estimators_comparison R self selected_actions = ([], self, Inl TypeError)"

subsection \<open>The lifetime of an orchestrator\<close>

text \<open>
  A client constructs the object and then calls its evaluation methods any number of
  times; an exception of one call does not end the object, which the client may go on
  using. \<open>serve\<close> runs one request, \<open>serve_all\<close> a sequence of them, \<open>lifetime\<close> the
  construction followed by the requests; each returns the collaborator calls made.
  (\<open>visualize_off_policy_estimates\<close> draws a figure and is not modelled.)
\<close>

datatype request =
    Estimate_policy_values "int list list"
  | Estimate_intervals "int list list" real int "int option"
  | Summarize_off_policy_estimates "int list list" real int "int option"
  | Evaluate_performance_of_estimators "int list list" number
  | Summarize_estimators_comparison "int list list"

fun serve ::
  "'m RegressionModel \<Rightarrow> 'm OffPolicyEvaluation \<Rightarrow> request
     \<Rightarrow> event list \<times> 'm OffPolicyEvaluation" where
  "serve R self (Estimate_policy_values sa) =
     (case estimate_policy_values R self sa of (calls, self1, r) \<Rightarrow> (calls, self1))"
| "serve R self (Estimate_intervals sa alpha n rs) =
     (case estimate_intervals R self sa alpha n rs of (calls, self1, r) \<Rightarrow> (calls, self1))"
| "serve R self (Summarize_off_policy_estimates sa alpha n rs) =
     (case summarize_off_policy_estimates R self sa alpha n rs of
        (calls, self1, r) \<Rightarrow> (calls, self1))"
| "serve R self (Evaluate_performance_of_estimators sa v) =
     (case evaluate_performance_of_estimators R self sa v of (calls, self1, r) \<Rightarrow> (calls, self1))"
| "serve R self (Summarize_estimators_comparison sa) =
     (case summarize_estimators_comparison R self sa of (calls, self1, r) \<Rightarrow> (calls, self1))"

fun serve_all ::
  "'m RegressionModel \<Rightarrow> 'm OffPolicyEvaluation \<Rightarrow> request list \<Rightarrow> event list" where
  "serve_all R self [] = []"
| "serve_all R self (req # reqs) =
     (case serve R self req of (calls, self1) \<Rightarrow> calls @ serve_all R self1 reqs)"

definition lifetime ::
  "'m RegressionModel \<Rightarrow> BanditFeedback \<Rightarrow> BaseOffPolicyEstimator list
     \<Rightarrow> real list list option \<Rightarrow> 'm option \<Rightarrow> request list \<Rightarrow> event list" where
  "lifetime R fb ests ctx rm reqs =
     (case post_init R fb ests ctx rm of
        (calls, Inl e) \<Rightarrow> calls
      | (calls, Inr self) \<Rightarrow> calls @ serve_all R self reqs)"

definition is_fit :: "event \<Rightarrow> bool" where
  "is_fit ev = (case ev of Call_fit fb ctx \<Rightarrow> True | _ \<Rightarrow> False)"

text \<open>
  The dictionaries that the point-estimate operation, and the interval operation, of the
  estimator registered under a name were called with, in the order of the calls.
\<close>

primrec point_payloads :: "string \<Rightarrow> event list \<Rightarrow> estimator_inputs list" where
  "point_payloads name [] = []"
| "point_payloads name (ev # evs) =
     (case ev of
        Call_estimate_policy_value n inputs \<Rightarrow> if n = name then [inputs] else []
      | _ \<Rightarrow> []) @ point_payloads name evs"

primrec interval_payloads :: "string \<Rightarrow> event list \<Rightarrow> estimator_inputs list" where
  "interval_payloads name [] = []"
| "interval_payloads name (ev # evs) =
     (case ev of
        Call_estimate_interval n inputs alpha n_bootstrap_samples random_state \<Rightarrow>
          if n = name then [inputs] else []
      | _ \<Rightarrow> []) @ interval_payloads name evs"

subsection \<open>Well-formed inputs and example collaborators\<close>

text \<open>
  The feedback and the selected actions fit together when the per-round arrays have
  \<open>n_rounds\<close> entries, the matrix has \<open>n_rounds\<close> rows, and the logged position of every
  round is a valid numpy index into that round's row. \<open>column row p\<close> is the place in the
  row that the valid index \<open>p\<close> stands for.
\<close>

definition fits :: "BanditFeedback \<Rightarrow> int list list \<Rightarrow> bool" where
  "fits fb selected_actions =
     (length (action fb) = nat (n_rounds fb) \<and> length (position fb) = nat (n_rounds fb) \<and>
      length selected_actions = nat (n_rounds fb) \<and>
      list_all2 (\<lambda>p row. - int (length row) \<le> sint p \<and> sint p < int (length row))
        (position fb) selected_actions)"

definition column :: "'a list \<Rightarrow> 64 word \<Rightarrow> nat" where
  "column row p = (if 0 \<le> sint p then nat (sint p) else nat (int (length row) + sint p))"

text \<open>
  An estimator that returns the same estimate on every input, as a \<open>numpy.float64\<close> like
  the estimators of the package; one that returns it as a float of the language; and a
  regression model whose state is the flag "fitted" and whose \<open>predict\<close> raises while it is
  unfitted.
\<close>

definition constant_estimator :: "string \<Rightarrow> real \<Rightarrow> BaseOffPolicyEstimator" where
  "constant_estimator name v =
     \<lparr>estimator_name = name,
      estimate_policy_value = (\<lambda>inputs. Inr (Numpy_float64 (Finite v))),
      estimate_interval = (\<lambda>inputs alpha n_bootstrap_samples random_state.
         Inr [(''mean'', Numpy_float64 (Finite v)), (''lower'', Numpy_float64 (Finite v)),
              (''upper'', Numpy_float64 (Finite v))])\<rparr>"

definition python_estimator :: "string \<Rightarrow> real \<Rightarrow> BaseOffPolicyEstimator" where
  "python_estimator name v =
     \<lparr>estimator_name = name,
      estimate_policy_value = (\<lambda>inputs. Inr (Python_float (Finite v))),
      estimate_interval = (\<lambda>inputs alpha n_bootstrap_samples random_state.
         Inr [(''mean'', Python_float (Finite v)), (''lower'', Python_float (Finite v)),
              (''upper'', Python_float (Finite v))])\<rparr>"

definition flag_model :: "bool RegressionModel" where
  "flag_model =
     \<lparr>check_is_fitted = (\<lambda>m. m),
      fit = (\<lambda>m fb ctx. Inr True),
      predict = (\<lambda>m fb ctx selected_actions.
         if m then Inr (map (\<lambda>row. [map (\<lambda>a. 0) row]) selected_actions)
         else Inl (Raised ''NotFittedError''))\<rparr>"

definition scenario_ope :: "bool OffPolicyEvaluation" where
  "scenario_ope =
     \<lparr>bandit_feedback = scenario_feedback,
      ope_estimators = [constant_estimator ''rm'' (1/2)],
      action_context = None,
      regression_model = None,
      ope_estimators_dict = [(''rm'', constant_estimator ''rm'' (1/2))]\<rparr>"

section \<open>Facts about the primitives\<close>

lemma dict_setitem_map_of: "map_of (dict_setitem d k v) = (map_of d)(k \<mapsto> v)"
  by (induction d) (auto simp: fun_eq_iff)

lemma dict_setitem_keys:
  "map fst (dict_setitem d k v) = (if k \<in> fst ` set d then map fst d else map fst d @ [k])"
  by (induction d) (force split: if_splits)+

lemma dict_setitem_distinct: "distinct (map fst d) \<Longrightarrow> distinct (map fst (dict_setitem d k v))"
  by (simp add: dict_setitem_keys)

lemma dict_setitem_fresh: "k \<notin> fst ` set d \<Longrightarrow> dict_setitem d k v = d @ [(k, v)]"
  by (induction d) auto

lemma sequence_results_map_Inr:
  "(\<forall>x\<in>set xs. f x = Inr (g x)) \<Longrightarrow> sequence_results (map f xs) = Inr (map g xs)"
  by (induction xs) simp_all

lemma sequence_results_Inl:
  "(\<forall>x\<in>set xs. \<forall>e. f x = Inl e \<longrightarrow> e = E) \<Longrightarrow> (\<exists>x\<in>set xs. \<exists>e. f x = Inl e) \<Longrightarrow>
     sequence_results (map f xs) = Inl E"
proof (induction xs)
  case Nil
  then show ?case by simp
next
  case (Cons a xs)
  show ?case
  proof (cases "f a")
    case (Inl e)
    with Cons.prems(1) have "e = E" by simp
    with Inl show ?thesis by simp
  next
    case (Inr y)
    with Cons.prems(2) have "\<exists>x\<in>set xs. \<exists>e. f x = Inl e" by auto
    moreover from Cons.prems(1) have "\<forall>x\<in>set xs. \<forall>e. f x = Inl e \<longrightarrow> e = E" by simp
    ultimately have "sequence_results (map f xs) = Inl E" by (rule Cons.IH [rotated])
    with Inr show ?thesis by simp
  qed
qed

lemma np_item2_int:
  "np_item2 a (int i) j =
     (if i < length a \<and> - int (length (a ! i)) \<le> j \<and> j < int (length (a ! i))
      then Inr (a ! i ! (if 0 \<le> j then nat j else nat (int (length (a ! i)) + j)))
      else Inl IndexError)"
  by (auto simp: np_item2_def np_index_def)

lemma np_item2_column:
  "np_item2 a (int i) (sint p) =
     (if i < length a \<and> - int (length (a ! i)) \<le> sint p \<and> sint p < int (length (a ! i))
      then Inr (a ! i ! column (a ! i) p) else Inl IndexError)"
  by (simp add: np_item2_int column_def)

lemma zip_arange:
  "length ps = n \<Longrightarrow>
     zip (np_arange (int n)) (map sint ps) = map (\<lambda>i. (int i, sint (ps ! i))) [0..<n]"
  by (rule nth_equalityI) (simp_all add: np_arange_def)

lemma zip_upt:
  "length xs = n \<Longrightarrow> zip xs (map g [0..<n]) = map (\<lambda>i. (xs ! i, g i)) [0..<n]"
  by (rule nth_equalityI) simp_all

lemma np_equal_same_length:
  "length xs = length ys \<Longrightarrow> np_equal xs ys = Inr (map (\<lambda>(x, y). x = y) (zip xs ys))"
  by (simp add: np_equal_def np_broadcast_def)

lemma action_match_of_lengths:
  assumes "length (action fb) = nat (n_rounds fb)" and "length (position fb) = nat (n_rounds fb)"
  shows "action_match_of fb sa =
           (if \<forall>i<nat (n_rounds fb).
                 i < length sa \<and> - int (length (sa ! i)) \<le> sint (position fb ! i) \<and>
                 sint (position fb ! i) < int (length (sa ! i))
            then Inr (map (\<lambda>i. action fb ! i = sa ! i ! column (sa ! i) (position fb ! i))
                        [0..<nat (n_rounds fb)])
            else Inl IndexError)"
proof -
  let ?n = "nat (n_rounds fb)"
  let ?f = "\<lambda>(i, j). np_item2 sa i j"
  let ?ps = "map (\<lambda>i. (int i, sint (position fb ! i))) [0..<?n]"
  let ?g = "\<lambda>ij. sa ! nat (fst ij) ! column (sa ! nat (fst ij)) (position fb ! nat (fst ij))"
  have ar: "np_arange (n_rounds fb) = np_arange (int ?n)"
    by (simp add: np_arange_def)
  have len: "length (np_arange (n_rounds fb)) = length (map sint (position fb))"
    using assms(2) by (simp add: np_arange_def)
  have zp: "zip (np_arange (n_rounds fb)) (map sint (position fb)) = ?ps"
    unfolding ar by (rule zip_arange [OF assms(2)])
  have bc: "np_broadcast (np_arange (n_rounds fb)) (map sint (position fb)) = Some ?ps"
    using len zp by (simp add: np_broadcast_def)
  have take: "np_take2 sa (np_arange (n_rounds fb)) (map sint (position fb))
                = sequence_results (map ?f ?ps)"
    by (simp add: np_take2_def bc)
  show ?thesis
  proof (cases "\<forall>i<?n. i < length sa \<and> - int (length (sa ! i)) \<le> sint (position fb ! i) \<and>
                 sint (position fb ! i) < int (length (sa ! i))")
    case True
    have "\<forall>x\<in>set ?ps. ?f x = Inr (?g x)"
      using True by (auto simp: np_item2_column)
    from sequence_results_map_Inr [OF this]
    have "sequence_results (map ?f ?ps)
            = Inr (map (\<lambda>i. sa ! i ! column (sa ! i) (position fb ! i)) [0..<?n])"
      by (simp add: comp_def)
    with take have ch: "np_take2 sa (np_arange (n_rounds fb)) (map sint (position fb))
            = Inr (map (\<lambda>i. sa ! i ! column (sa ! i) (position fb ! i)) [0..<?n])" by simp
    have "np_equal (action fb) (map (\<lambda>i. sa ! i ! column (sa ! i) (position fb ! i)) [0..<?n])
            = Inr (map (\<lambda>i. action fb ! i = sa ! i ! column (sa ! i) (position fb ! i)) [0..<?n])"
      using assms(1) by (simp add: np_equal_same_length zip_upt comp_def)
    with ch True show ?thesis by (simp add: action_match_of_def)
  next
    case False
    then obtain i where i: "i < ?n"
      and bad: "\<not> (i < length sa \<and> - int (length (sa ! i)) \<le> sint (position fb ! i) \<and>
                 sint (position fb ! i) < int (length (sa ! i)))" by blast
    have all: "\<forall>x\<in>set ?ps. \<forall>e. ?f x = Inl e \<longrightarrow> e = IndexError"
      by (auto simp: np_item2_column split: if_splits)
    have "?f (int i, sint (position fb ! i)) = Inl IndexError"
      using bad by (simp add: np_item2_column)
    moreover have "(int i, sint (position fb ! i)) \<in> set ?ps" using i by auto
    ultimately have ex: "\<exists>x\<in>set ?ps. \<exists>e. ?f x = Inl e" by blast
    from sequence_results_Inl [OF all ex] take False show ?thesis
      by (simp add: action_match_of_def)
  qed
qed

lemma fits_valid:
  "fits fb sa \<Longrightarrow> i < nat (n_rounds fb) \<Longrightarrow>
     i < length sa \<and> - int (length (sa ! i)) \<le> sint (position fb ! i) \<and>
     sint (position fb ! i) < int (length (sa ! i))"
  by (auto simp: fits_def dest: list_all2_nthD)

lemma fits_iff:
  "fits fb sa =
     (length (action fb) = nat (n_rounds fb) \<and> length (position fb) = nat (n_rounds fb) \<and>
      length sa = nat (n_rounds fb) \<and>
      (\<forall>i<nat (n_rounds fb).
         - int (length (sa ! i)) \<le> sint (position fb ! i) \<and>
         sint (position fb ! i) < int (length (sa ! i))))"
  by (auto simp: fits_def list_all2_conv_all_nth)

lemma action_match_of_fits:
  assumes "fits fb sa"
  shows "action_match_of fb sa =
           Inr (map (\<lambda>i. action fb ! i = sa ! i ! column (sa ! i) (position fb ! i))
                  [0..<nat (n_rounds fb)])"
proof -
  from assms have la: "length (action fb) = nat (n_rounds fb)"
    and lp: "length (position fb) = nat (n_rounds fb)" by (simp_all add: fits_def)
  from fits_valid [OF assms] show ?thesis
    by (simp add: action_match_of_lengths [OF la lp])
qed

lemma create_estimator_inputs_unfold:
  "create_estimator_inputs R self sa =
     (case action_match_of (bandit_feedback self) sa of
        Inl e \<Rightarrow> ([], self, Inl e)
      | Inr am \<Rightarrow>
          (case regression_model self of
             None \<Rightarrow>
               ([], self,
                Inr [(''reward'', FloatArray (reward (bandit_feedback self))),
                     (''pscore'', FloatArray (pscore (bandit_feedback self))),
                     (''action_match'', BoolArray am)])
           | Some m \<Rightarrow>
               (case predict R m (bandit_feedback self) (action_context self) sa of
                  Inl e \<Rightarrow>
                    ([Call_predict (bandit_feedback self) (action_context self) sa], self, Inl e)
                | Inr est \<Rightarrow>
                    ([Call_predict (bandit_feedback self) (action_context self) sa], self,
                     Inr [(''reward'', FloatArray (reward (bandit_feedback self))),
                          (''pscore'', FloatArray (pscore (bandit_feedback self))),
                          (''action_match'', BoolArray am),
                          (''estimated_rewards_by_reg_model'', FloatArray3 est)]))))"
  by (simp add: create_estimator_inputs_def Let_def split: sum.splits option.splits)

lemma scenario_fits: "fits scenario_feedback scenario_selected_actions"
  by (simp add: fits_def scenario_feedback_def scenario_selected_actions_def)

lemma scenario_action_match:
  "action_match_of scenario_feedback scenario_selected_actions = Inr [True, True, True]"
  by (simp add: action_match_of_fits [OF scenario_fits])
     (simp add: scenario_feedback_def scenario_selected_actions_def column_def upt_conv_Cons)

section \<open>The action match\<close>

text \<open>
  Claim C1. Let the feedback and the selected actions fit: \<open>action\<close> and \<open>position\<close> have
  \<open>n_rounds\<close> entries, the matrix has \<open>n_rounds\<close> rows and every logged position is a valid
  index into its row. Then \<open>_create_estimator_inputs\<close> computes a boolean array \<open>am\<close> of
  \<open>n_rounds\<close> entries whose entry \<open>i\<close> is true exactly when \<open>action[i]\<close> equals
  \<open>selected_actions[i, position[i]]\<close>, the element of row \<open>i\<close> that the position stands for
  (counted from the end when it is negative); it returns the dictionary with \<open>am\<close> under
  \<open>action_match\<close>, unless a regression model is configured and its \<open>predict\<close> raises, which is
  then the exception of the method. When the three lengths are \<open>n_rounds\<close> and some position
  is not a valid index into its row, the method raises \<open>IndexError\<close>. Whenever the method
  returns a dictionary for a feedback whose \<open>action\<close> and \<open>position\<close> have \<open>n_rounds\<close> entries,
  its \<open>action_match\<close> is that array. For the feedback and the selected actions of scenario 7
  the dictionary is returned and its \<open>action_match\<close> is \<open>[True, True, True]\<close>.
\<close>

theorem action_match_iff_logged_action_selected:
  "(fits (bandit_feedback self) sa \<longrightarrow>
      (\<exists>am. length am = nat (n_rounds (bandit_feedback self)) \<and>
         (\<forall>i<nat (n_rounds (bandit_feedback self)).
            np_item2 sa (int i) (sint (position (bandit_feedback self) ! i))
              = Inr (sa ! i ! column (sa ! i) (position (bandit_feedback self) ! i)) \<and>
            am ! i = (action (bandit_feedback self) ! i
                        = sa ! i ! column (sa ! i) (position (bandit_feedback self) ! i))) \<and>
         create_estimator_inputs R self sa =
           (case regression_model self of
              None \<Rightarrow>
                ([], self,
                 Inr [(''reward'', FloatArray (reward (bandit_feedback self))),
                      (''pscore'', FloatArray (pscore (bandit_feedback self))),
                      (''action_match'', BoolArray am)])
            | Some m \<Rightarrow>
                (case predict R m (bandit_feedback self) (action_context self) sa of
                   Inl e \<Rightarrow>
                     ([Call_predict (bandit_feedback self) (action_context self) sa], self,
                      Inl e)
                 | Inr est \<Rightarrow>
                     ([Call_predict (bandit_feedback self) (action_context self) sa], self,
                      Inr [(''reward'', FloatArray (reward (bandit_feedback self))),
                           (''pscore'', FloatArray (pscore (bandit_feedback self))),
                           (''action_match'', BoolArray am),
                           (''estimated_rewards_by_reg_model'', FloatArray3 est)]))))) \<and>
   (length (action (bandit_feedback self)) = nat (n_rounds (bandit_feedback self)) \<and>
    length (position (bandit_feedback self)) = nat (n_rounds (bandit_feedback self)) \<and>
    length sa = nat (n_rounds (bandit_feedback self)) \<and> \<not> fits (bandit_feedback self) sa \<longrightarrow>
      create_estimator_inputs R self sa = ([], self, Inl IndexError)) \<and>
   (\<forall>inputs.
      snd (snd (create_estimator_inputs R self sa)) = Inr inputs \<and>
      length (action (bandit_feedback self)) = nat (n_rounds (bandit_feedback self)) \<and>
      length (position (bandit_feedback self)) = nat (n_rounds (bandit_feedback self)) \<longrightarrow>
        dict_get inputs ''action_match''
          = Some (BoolArray
              (map (\<lambda>i. action (bandit_feedback self) ! i
                          = sa ! i ! column (sa ! i) (position (bandit_feedback self) ! i))
                 [0..<nat (n_rounds (bandit_feedback self))]))) \<and>
   create_estimator_inputs R7 scenario_ope scenario_selected_actions
     = ([], scenario_ope,
        Inr [(''reward'', FloatArray [1, 0, 1]), (''pscore'', FloatArray [1/2, 1/2, 1/2]),
             (''action_match'', BoolArray [True, True, True])])"
proof (intro conjI impI allI)
  let ?fb = "bandit_feedback self"
  let ?am = "map (\<lambda>i. action ?fb ! i = sa ! i ! column (sa ! i) (position ?fb ! i))
               [0..<nat (n_rounds ?fb)]"
  assume f: "fits ?fb sa"
  have am: "action_match_of ?fb sa = Inr ?am" by (rule action_match_of_fits [OF f])
  have len: "length ?am = nat (n_rounds ?fb)" by simp
  have el: "\<forall>i<nat (n_rounds ?fb).
              np_item2 sa (int i) (sint (position ?fb ! i))
                = Inr (sa ! i ! column (sa ! i) (position ?fb ! i)) \<and>
              ?am ! i = (action ?fb ! i = sa ! i ! column (sa ! i) (position ?fb ! i))"
    using fits_valid [OF f] by (simp add: np_item2_column)
  have run: "create_estimator_inputs R self sa =
           (case regression_model self of
              None \<Rightarrow>
                ([], self,
                 Inr [(''reward'', FloatArray (reward ?fb)), (''pscore'', FloatArray (pscore ?fb)),
                      (''action_match'', BoolArray ?am)])
            | Some m \<Rightarrow>
                (case predict R m ?fb (action_context self) sa of
                   Inl e \<Rightarrow> ([Call_predict ?fb (action_context self) sa], self, Inl e)
                 | Inr est \<Rightarrow>
                     ([Call_predict ?fb (action_context self) sa], self,
                      Inr [(''reward'', FloatArray (reward ?fb)),
                           (''pscore'', FloatArray (pscore ?fb)),
                           (''action_match'', BoolArray ?am),
                           (''estimated_rewards_by_reg_model'', FloatArray3 est)])))"
    by (simp add: create_estimator_inputs_unfold am)
  from len el run
  show "\<exists>am. length am = nat (n_rounds ?fb) \<and>
         (\<forall>i<nat (n_rounds ?fb).
            np_item2 sa (int i) (sint (position ?fb ! i))
              = Inr (sa ! i ! column (sa ! i) (position ?fb ! i)) \<and>
            am ! i = (action ?fb ! i = sa ! i ! column (sa ! i) (position ?fb ! i))) \<and>
         create_estimator_inputs R self sa =
           (case regression_model self of
              None \<Rightarrow>
                ([], self,
                 Inr [(''reward'', FloatArray (reward ?fb)), (''pscore'', FloatArray (pscore ?fb)),
                      (''action_match'', BoolArray am)])
            | Some m \<Rightarrow>
                (case predict R m ?fb (action_context self) sa of
                   Inl e \<Rightarrow> ([Call_predict ?fb (action_context self) sa], self, Inl e)
                 | Inr est \<Rightarrow>
                     ([Call_predict ?fb (action_context self) sa], self,
                      Inr [(''reward'', FloatArray (reward ?fb)),
                           (''pscore'', FloatArray (pscore ?fb)),
                           (''action_match'', BoolArray am),
                           (''estimated_rewards_by_reg_model'', FloatArray3 est)])))"
    by blast
next
  let ?fb = "bandit_feedback self"
  assume a: "length (action ?fb) = nat (n_rounds ?fb) \<and>
    length (position ?fb) = nat (n_rounds ?fb) \<and>
    length sa = nat (n_rounds ?fb) \<and> \<not> fits ?fb sa"
  then have la: "length (action ?fb) = nat (n_rounds ?fb)"
    and lp: "length (position ?fb) = nat (n_rounds ?fb)"
    and ls: "length sa = nat (n_rounds ?fb)" and nf: "\<not> fits ?fb sa" by simp_all
  from nf la lp ls have "\<not> (\<forall>i<nat (n_rounds ?fb).
         i < length sa \<and> - int (length (sa ! i)) \<le> sint (position ?fb ! i) \<and>
         sint (position ?fb ! i) < int (length (sa ! i)))"
    by (auto simp: fits_iff)
  then have "action_match_of ?fb sa = Inl IndexError"
    by (simp add: action_match_of_lengths [OF la lp])
  then show "create_estimator_inputs R self sa = ([], self, Inl IndexError)"
    by (simp add: create_estimator_inputs_unfold)
next
  let ?fb = "bandit_feedback self"
  fix inputs
  assume a: "snd (snd (create_estimator_inputs R self sa)) = Inr inputs \<and>
      length (action ?fb) = nat (n_rounds ?fb) \<and>
      length (position ?fb) = nat (n_rounds ?fb)"
  then have r: "snd (snd (create_estimator_inputs R self sa)) = Inr inputs"
    and la: "length (action ?fb) = nat (n_rounds ?fb)"
    and lp: "length (position ?fb) = nat (n_rounds ?fb)" by simp_all
  from r show "dict_get inputs ''action_match''
          = Some (BoolArray
              (map (\<lambda>i. action ?fb ! i = sa ! i ! column (sa ! i) (position ?fb ! i))
                 [0..<nat (n_rounds ?fb)]))"
    by (auto simp: create_estimator_inputs_unfold action_match_of_lengths [OF la lp]
          dict_get_def split: if_splits option.splits sum.splits)
next
  show "create_estimator_inputs R7 scenario_ope scenario_selected_actions
     = ([], scenario_ope,
        Inr [(''reward'', FloatArray [1, 0, 1]), (''pscore'', FloatArray [1/2, 1/2, 1/2]),
             (''action_match'', BoolArray [True, True, True])])"
    by (simp add: create_estimator_inputs_unfold scenario_ope_def scenario_action_match)
       (simp add: scenario_feedback_def)
qed

theorem action_match_iff_logged_action_selected_witness:
  "fits (bandit_feedback scenario_ope) scenario_selected_actions \<and>
   (\<exists>am. length am = 3 \<and>
      am ! 0 = (action scenario_feedback ! 0 = scenario_selected_actions ! 0 ! 0) \<and>
      am ! 1 = (action scenario_feedback ! 1 = scenario_selected_actions ! 1 ! 0) \<and>
      am ! 2 = (action scenario_feedback ! 2 = scenario_selected_actions ! 2 ! 0) \<and>
      create_estimator_inputs flag_model scenario_ope scenario_selected_actions
        = ([], scenario_ope,
           Inr [(''reward'', FloatArray [1, 0, 1]), (''pscore'', FloatArray [1/2, 1/2, 1/2]),
                (''action_match'', BoolArray am)])) \<and>
   \<not> fits (bandit_feedback scenario_ope) [[], [], []] \<and>
   create_estimator_inputs flag_model scenario_ope [[], [], []]
     = ([], scenario_ope, Inl IndexError) \<and>
   fits (bandit_feedback
           (scenario_ope\<lparr>bandit_feedback :=
              \<lparr>n_rounds = 1, n_actions = 3, action = [2], position = [18446744073709551615],
               reward = [1], pscore = [1/2], contexts = [[]]\<rparr>\<rparr>)) [[1, 2]] \<and>
   (\<exists>am. length am = 1 \<and> am ! 0 = True \<and>
      snd (snd (create_estimator_inputs flag_model
        (scenario_ope\<lparr>bandit_feedback :=
              \<lparr>n_rounds = 1, n_actions = 3, action = [2], position = [18446744073709551615],
               reward = [1], pscore = [1/2], contexts = [[]]\<rparr>\<rparr>) [[1, 2]]))
        = Inr [(''reward'', FloatArray [1]), (''pscore'', FloatArray [1/2]),
               (''action_match'', BoolArray am)])"
proof -
  let ?neg = "scenario_ope\<lparr>bandit_feedback :=
              \<lparr>n_rounds = 1, n_actions = 3, action = [2], position = [18446744073709551615],
               reward = [1], pscore = [1/2], contexts = [[]]\<rparr>\<rparr>"
  have fb: "bandit_feedback scenario_ope = scenario_feedback"
    and rm: "regression_model scenario_ope = None"
    by (simp_all add: scenario_ope_def)
  have f1: "fits (bandit_feedback scenario_ope) scenario_selected_actions"
    by (simp add: fb fits_def scenario_feedback_def scenario_selected_actions_def)
  from action_match_iff_logged_action_selected
         [where self = scenario_ope and sa = scenario_selected_actions and R = flag_model,
          THEN conjunct1, rule_format, OF f1]
  obtain am where len: "length am = nat (n_rounds scenario_feedback)"
    and el: "\<forall>i<nat (n_rounds scenario_feedback).
               am ! i = (action scenario_feedback ! i
                  = scenario_selected_actions ! i
                      ! column (scenario_selected_actions ! i) (position scenario_feedback ! i))"
    and run: "create_estimator_inputs flag_model scenario_ope scenario_selected_actions
        = ([], scenario_ope,
           Inr [(''reward'', FloatArray (reward scenario_feedback)),
                (''pscore'', FloatArray (pscore scenario_feedback)),
                (''action_match'', BoolArray am)])"
    unfolding fb rm by auto
  have n: "nat (n_rounds scenario_feedback) = 3" by (simp add: scenario_feedback_def)
  have c: "column (scenario_selected_actions ! i) (position scenario_feedback ! i) = 0"
    if "i < 3" for i
    using that
    by (auto simp: column_def scenario_feedback_def scenario_selected_actions_def less_Suc_eq
          numeral_3_eq_3)
  from el [rule_format, of 0] el [rule_format, of 1] el [rule_format, of 2]
  have e: "am ! 0 = (action scenario_feedback ! 0 = scenario_selected_actions ! 0 ! 0)"
    "am ! 1 = (action scenario_feedback ! 1 = scenario_selected_actions ! 1 ! 0)"
    "am ! 2 = (action scenario_feedback ! 2 = scenario_selected_actions ! 2 ! 0)"
    by (simp_all add: n c)
  from len n have len3: "length am = 3" by simp
  from run have run': "create_estimator_inputs flag_model scenario_ope scenario_selected_actions
        = ([], scenario_ope,
           Inr [(''reward'', FloatArray [1, 0, 1]), (''pscore'', FloatArray [1/2, 1/2, 1/2]),
                (''action_match'', BoolArray am)])"
    by (simp add: scenario_feedback_def)
  from len3 e run' have p1: "\<exists>am. length am = 3 \<and>
      am ! 0 = (action scenario_feedback ! 0 = scenario_selected_actions ! 0 ! 0) \<and>
      am ! 1 = (action scenario_feedback ! 1 = scenario_selected_actions ! 1 ! 0) \<and>
      am ! 2 = (action scenario_feedback ! 2 = scenario_selected_actions ! 2 ! 0) \<and>
      create_estimator_inputs flag_model scenario_ope scenario_selected_actions
        = ([], scenario_ope,
           Inr [(''reward'', FloatArray [1, 0, 1]), (''pscore'', FloatArray [1/2, 1/2, 1/2]),
                (''action_match'', BoolArray am)])"
    by blast
  have f2: "\<not> fits (bandit_feedback scenario_ope) [[], [], []]"
    by (simp add: fb fits_def scenario_feedback_def)
  have l2: "length (action (bandit_feedback scenario_ope))
              = nat (n_rounds (bandit_feedback scenario_ope)) \<and>
            length (position (bandit_feedback scenario_ope))
              = nat (n_rounds (bandit_feedback scenario_ope)) \<and>
            length [[], [], []] = nat (n_rounds (bandit_feedback scenario_ope)) \<and>
            \<not> fits (bandit_feedback scenario_ope) [[], [], []]"
    using f2 by (simp add: fb scenario_feedback_def)
  from action_match_iff_logged_action_selected
         [where self = scenario_ope and sa = "[[], [], []]" and R = flag_model,
          THEN conjunct2, THEN conjunct1, rule_format, OF l2]
  have p2: "create_estimator_inputs flag_model scenario_ope [[], [], []]
     = ([], scenario_ope, Inl IndexError)" .
  have f3: "fits (bandit_feedback ?neg) [[1, 2]]"
    by (simp add: fits_def)
  from action_match_iff_logged_action_selected
         [where self = ?neg and sa = "[[1, 2]]" and R = flag_model,
          THEN conjunct1, rule_format, OF f3]
  obtain am3 where len3': "length am3 = 1"
    and el3: "\<forall>i<1. am3 ! i = ([2 :: int] ! i
                  = [[1, 2 :: int]] ! i
                      ! column ([[1, 2 :: int]] ! i) ([18446744073709551615 :: 64 word] ! i))"
    and run3: "create_estimator_inputs flag_model ?neg [[1, 2]]
        = ([], ?neg,
           Inr [(''reward'', FloatArray [1]), (''pscore'', FloatArray [1/2]),
                (''action_match'', BoolArray am3)])"
    by (auto simp: scenario_ope_def)
  from el3 [rule_format, of 0] have e3: "am3 ! 0 = True" by (simp add: column_def)
  from len3' e3 run3 have p3: "\<exists>am. length am = 1 \<and> am ! 0 = True \<and>
      snd (snd (create_estimator_inputs flag_model ?neg [[1, 2]]))
        = Inr [(''reward'', FloatArray [1]), (''pscore'', FloatArray [1/2]),
               (''action_match'', BoolArray am)]"
    by auto
  show ?thesis by (intro conjI) (rule f1 p1 f2 p2 f3 p3)+
qed

section \<open>Facts about the methods\<close>

lemma is_fit_simps:
  "is_fit Call_check_is_fitted = False"
  "is_fit (Call_fit fb ctx) = True"
  "is_fit (Call_predict fb ctx sa) = False"
  "is_fit (Call_estimate_policy_value name inputs) = False"
  "is_fit (Call_estimate_interval name inputs alpha n rs) = False"
  by (simp_all add: is_fit_def)

lemma create_estimator_inputs_self:
  "fst (snd (create_estimator_inputs R self sa)) = self"
  by (simp add: create_estimator_inputs_def Let_def split: sum.splits option.splits)

lemma create_estimator_inputs_calls:
  "fst (create_estimator_inputs R self sa) =
     (case action_match_of (bandit_feedback self) sa of
        Inl e \<Rightarrow> []
      | Inr am \<Rightarrow>
          (case regression_model self of
             None \<Rightarrow> []
           | Some m \<Rightarrow> [Call_predict (bandit_feedback self) (action_context self) sa]))"
  by (simp add: create_estimator_inputs_def Let_def split: sum.splits option.splits)

lemma create_estimator_inputs_no_fit:
  "filter is_fit (fst (create_estimator_inputs R self sa)) = []"
  by (simp add: create_estimator_inputs_calls is_fit_simps split: sum.splits option.splits)

lemma create_estimator_inputs_cong:
  assumes "bandit_feedback s1 = bandit_feedback s2" and "action_context s1 = action_context s2"
    and "regression_model s1 = regression_model s2"
    and "\<forall>m. regression_model s1 = Some m \<longrightarrow>
           predict R1 m (bandit_feedback s1) (action_context s1) sa
             = predict R2 m (bandit_feedback s1) (action_context s1) sa"
  shows "fst (create_estimator_inputs R1 s1 sa) = fst (create_estimator_inputs R2 s2 sa) \<and>
         snd (snd (create_estimator_inputs R1 s1 sa))
           = snd (snd (create_estimator_inputs R2 s2 sa))"
proof (cases "regression_model s2")
  case None
  with assms show ?thesis
    by (simp add: create_estimator_inputs_unfold split: sum.splits)
next
  case (Some m)
  with assms have "predict R1 m (bandit_feedback s2) (action_context s2) sa
                     = predict R2 m (bandit_feedback s2) (action_context s2) sa" by simp
  with Some assms(1-3) show ?thesis
    by (simp add: create_estimator_inputs_unfold split: sum.splits)
qed

lemma create_estimator_inputs_sensitive:
  assumes "fits (bandit_feedback self) sa" and "regression_model self = Some m"
    and "predict R1 m (bandit_feedback self) (action_context self) sa
           \<noteq> predict R2 m (bandit_feedback self) (action_context self) sa"
  shows "snd (snd (create_estimator_inputs R1 self sa))
           \<noteq> snd (snd (create_estimator_inputs R2 self sa))"
  using assms(2,3)
  by (auto simp: create_estimator_inputs_unfold action_match_of_fits [OF assms(1)]
        split: sum.splits)

section \<open>Input construction is pure and deterministic\<close>

text \<open>
  Claim C7. \<open>_create_estimator_inputs\<close> leaves the orchestrator as it was: the object after
  the call is the object before it, so its feedback, its estimator list and registry, its
  action context and its regression model are unchanged; and the call never invokes
  \<open>fit\<close>, the one operation that changes the state of the regression model.
\<close>

theorem create_estimator_inputs_frame:
  "(let self' = fst (snd (create_estimator_inputs R self sa))
    in self' = self \<and>
       bandit_feedback self' = bandit_feedback self \<and>
       ope_estimators self' = ope_estimators self \<and>
       ope_estimators_dict self' = ope_estimators_dict self \<and>
       action_context self' = action_context self \<and>
       regression_model self' = regression_model self) \<and>
   filter is_fit (fst (create_estimator_inputs R self sa)) = []"
  by (simp add: create_estimator_inputs_self create_estimator_inputs_no_fit Let_def)

text \<open>
  Claim C6. Input construction is deterministic. Take two invocations of
  \<open>_create_estimator_inputs\<close>, on orchestrators \<open>s1\<close> and \<open>s2\<close> with the same feedback, action
  context and regression model, with the same selected actions. \<open>R1\<close> and \<open>R2\<close> are the
  collaborators as they behave during the first and during the second invocation: a
  predictor that is not a deterministic function of its arguments is one whose \<open>predict\<close>
  differs between the two. If \<open>predict\<close> gives the same answer to the call the method makes
  (the proviso of the claim), the two invocations make the same collaborator calls and
  have the same outcome: the same exception, or dictionaries with the same keys in the same
  order and equal values under every key; the estimators and the registry, and what
  \<open>check_is_fitted\<close> and \<open>fit\<close> would do, have no influence. In particular a second
  invocation on the object as the first left it repeats the outcome of the first. The
  proviso is needed: when the feedback and the selected actions fit and the two answers of
  \<open>predict\<close> differ, so do the outcomes.
\<close>

theorem create_estimator_inputs_deterministic:
  "(bandit_feedback s1 = bandit_feedback s2 \<and> action_context s1 = action_context s2 \<and>
    regression_model s1 = regression_model s2 \<and>
    (\<forall>m. regression_model s1 = Some m \<longrightarrow>
       predict R1 m (bandit_feedback s1) (action_context s1) sa
         = predict R2 m (bandit_feedback s1) (action_context s1) sa) \<longrightarrow>
      fst (create_estimator_inputs R1 s1 sa) = fst (create_estimator_inputs R2 s2 sa) \<and>
      snd (snd (create_estimator_inputs R1 s1 sa))
        = snd (snd (create_estimator_inputs R2 s2 sa)) \<and>
      (\<forall>inputs1 inputs2.
         snd (snd (create_estimator_inputs R1 s1 sa)) = Inr inputs1 \<and>
         snd (snd (create_estimator_inputs R2 s2 sa)) = Inr inputs2 \<longrightarrow>
           dict_keys inputs1 = dict_keys inputs2 \<and>
           (\<forall>key. dict_get inputs1 key = dict_get inputs2 key))) \<and>
   fst (create_estimator_inputs R (fst (snd (create_estimator_inputs R self sa))) sa)
     = fst (create_estimator_inputs R self sa) \<and>
   snd (snd (create_estimator_inputs R (fst (snd (create_estimator_inputs R self sa))) sa))
     = snd (snd (create_estimator_inputs R self sa)) \<and>
   (fits (bandit_feedback self) sa \<and> regression_model self = Some m \<and>
    predict R1 m (bandit_feedback self) (action_context self) sa
      \<noteq> predict R2 m (bandit_feedback self) (action_context self) sa \<longrightarrow>
      snd (snd (create_estimator_inputs R1 self sa))
        \<noteq> snd (snd (create_estimator_inputs R2 self sa)))"
proof (intro conjI impI allI)
  assume a: "bandit_feedback s1 = bandit_feedback s2 \<and> action_context s1 = action_context s2 \<and>
    regression_model s1 = regression_model s2 \<and>
    (\<forall>m. regression_model s1 = Some m \<longrightarrow>
       predict R1 m (bandit_feedback s1) (action_context s1) sa
         = predict R2 m (bandit_feedback s1) (action_context s1) sa)"
  then have a1: "bandit_feedback s1 = bandit_feedback s2"
    and a2: "action_context s1 = action_context s2"
    and a3: "regression_model s1 = regression_model s2"
    and a4: "\<forall>m. regression_model s1 = Some m \<longrightarrow>
       predict R1 m (bandit_feedback s1) (action_context s1) sa
         = predict R2 m (bandit_feedback s1) (action_context s1) sa"
    by blast+
  have c: "fst (create_estimator_inputs R1 s1 sa) = fst (create_estimator_inputs R2 s2 sa) \<and>
         snd (snd (create_estimator_inputs R1 s1 sa))
           = snd (snd (create_estimator_inputs R2 s2 sa))"
    by (rule create_estimator_inputs_cong [OF a1 a2 a3 a4])
  from c show "fst (create_estimator_inputs R1 s1 sa) = fst (create_estimator_inputs R2 s2 sa)"
    by simp
  from c show "snd (snd (create_estimator_inputs R1 s1 sa))
           = snd (snd (create_estimator_inputs R2 s2 sa))" by simp
  fix inputs1 inputs2
  assume "snd (snd (create_estimator_inputs R1 s1 sa)) = Inr inputs1 \<and>
         snd (snd (create_estimator_inputs R2 s2 sa)) = Inr inputs2"
  with c have eq: "inputs1 = inputs2" by simp
  from eq show "dict_keys inputs1 = dict_keys inputs2" by simp
  fix key
  from eq show "dict_get inputs1 key = dict_get inputs2 key" by simp
next
  show "fst (create_estimator_inputs R (fst (snd (create_estimator_inputs R self sa))) sa)
     = fst (create_estimator_inputs R self sa)"
    by (simp add: create_estimator_inputs_self)
next
  show "snd (snd (create_estimator_inputs R (fst (snd (create_estimator_inputs R self sa))) sa))
     = snd (snd (create_estimator_inputs R self sa))"
    by (simp add: create_estimator_inputs_self)
next
  assume "fits (bandit_feedback self) sa \<and> regression_model self = Some m \<and>
    predict R1 m (bandit_feedback self) (action_context self) sa
      \<noteq> predict R2 m (bandit_feedback self) (action_context self) sa"
  then have b1: "fits (bandit_feedback self) sa" and b2: "regression_model self = Some m"
    and b3: "predict R1 m (bandit_feedback self) (action_context self) sa
      \<noteq> predict R2 m (bandit_feedback self) (action_context self) sa"
    by blast+
  show "snd (snd (create_estimator_inputs R1 self sa))
        \<noteq> snd (snd (create_estimator_inputs R2 self sa))"
    by (rule create_estimator_inputs_sensitive [OF b1 b2 b3])
qed

theorem create_estimator_inputs_deterministic_witness:
  "snd (snd (create_estimator_inputs flag_model
               (scenario_ope\<lparr>regression_model := Some True\<rparr>) scenario_selected_actions))
     = Inr [(''reward'', FloatArray [1, 0, 1]), (''pscore'', FloatArray [1/2, 1/2, 1/2]),
            (''action_match'', BoolArray [True, True, True]),
            (''estimated_rewards_by_reg_model'', FloatArray3 [[[0, 0]], [[0, 0]], [[0, 0]]])] \<and>
   snd (snd (create_estimator_inputs flag_model
               (scenario_ope\<lparr>regression_model := Some True, ope_estimators := [],
                              ope_estimators_dict := []\<rparr>) scenario_selected_actions))
     = snd (snd (create_estimator_inputs flag_model
               (scenario_ope\<lparr>regression_model := Some True\<rparr>) scenario_selected_actions)) \<and>
   fst (create_estimator_inputs flag_model
               (scenario_ope\<lparr>regression_model := Some True, ope_estimators := [],
                              ope_estimators_dict := []\<rparr>) scenario_selected_actions)
     = [Call_predict scenario_feedback None scenario_selected_actions] \<and>
   predict flag_model True scenario_feedback None scenario_selected_actions
     \<noteq> predict (flag_model\<lparr>predict := (\<lambda>m fb ctx sa. Inr [])\<rparr>) True scenario_feedback None
         scenario_selected_actions \<and>
   snd (snd (create_estimator_inputs flag_model
               (scenario_ope\<lparr>regression_model := Some True\<rparr>) scenario_selected_actions))
     \<noteq> snd (snd (create_estimator_inputs (flag_model\<lparr>predict := (\<lambda>m fb ctx sa. Inr [])\<rparr>)
               (scenario_ope\<lparr>regression_model := Some True\<rparr>) scenario_selected_actions))"
proof -
  let ?s1 = "scenario_ope\<lparr>regression_model := Some True\<rparr>"
  let ?s2 = "scenario_ope\<lparr>regression_model := Some True, ope_estimators := [],
                           ope_estimators_dict := []\<rparr>"
  let ?R2 = "flag_model\<lparr>predict := (\<lambda>m fb ctx sa. Inr [])\<rparr>"
  have fb: "bandit_feedback ?s1 = scenario_feedback" "action_context ?s1 = None"
    by (simp_all add: scenario_ope_def)
  have run: "create_estimator_inputs flag_model ?s1 scenario_selected_actions
     = ([Call_predict scenario_feedback None scenario_selected_actions], ?s1,
        Inr [(''reward'', FloatArray [1, 0, 1]), (''pscore'', FloatArray [1/2, 1/2, 1/2]),
            (''action_match'', BoolArray [True, True, True]),
            (''estimated_rewards_by_reg_model'', FloatArray3 [[[0, 0]], [[0, 0]], [[0, 0]]])])"
    by (simp add: create_estimator_inputs_unfold scenario_ope_def scenario_action_match
          flag_model_def)
       (simp add: scenario_feedback_def scenario_selected_actions_def)
  have hyp: "bandit_feedback ?s1 = bandit_feedback ?s2 \<and>
    action_context ?s1 = action_context ?s2 \<and>
    regression_model ?s1 = regression_model ?s2 \<and>
    (\<forall>m. regression_model ?s1 = Some m \<longrightarrow>
       predict flag_model m (bandit_feedback ?s1) (action_context ?s1) scenario_selected_actions
         = predict flag_model m (bandit_feedback ?s1) (action_context ?s1)
             scenario_selected_actions)"
    by simp
  from create_estimator_inputs_deterministic
         [where ?s1.0 = ?s1 and ?s2.0 = ?s2 and ?R1.0 = flag_model and ?R2.0 = flag_model
            and sa = scenario_selected_actions,
          THEN conjunct1, rule_format, OF hyp]
  have same: "fst (create_estimator_inputs flag_model ?s1 scenario_selected_actions)
                = fst (create_estimator_inputs flag_model ?s2 scenario_selected_actions)"
    and same2: "snd (snd (create_estimator_inputs flag_model ?s1 scenario_selected_actions))
                = snd (snd (create_estimator_inputs flag_model ?s2 scenario_selected_actions))"
    by blast+
  have differ: "predict flag_model True scenario_feedback None scenario_selected_actions
     \<noteq> predict ?R2 True scenario_feedback None scenario_selected_actions"
    by (simp add: flag_model_def scenario_selected_actions_def)
  have hyp2: "fits (bandit_feedback ?s1) scenario_selected_actions \<and>
    regression_model ?s1 = Some True \<and>
    predict flag_model True (bandit_feedback ?s1) (action_context ?s1) scenario_selected_actions
      \<noteq> predict ?R2 True (bandit_feedback ?s1) (action_context ?s1) scenario_selected_actions"
    using differ by (simp add: fb scenario_fits)
  from create_estimator_inputs_deterministic
         [where ?R1.0 = flag_model and ?R2.0 = ?R2 and sa = scenario_selected_actions
            and self = ?s1 and m = True,
          THEN conjunct2, THEN conjunct2, THEN conjunct2, rule_format, OF hyp2]
  have ne: "snd (snd (create_estimator_inputs flag_model ?s1 scenario_selected_actions))
     \<noteq> snd (snd (create_estimator_inputs ?R2 ?s1 scenario_selected_actions))" .
  from run have r1: "snd (snd (create_estimator_inputs flag_model ?s1 scenario_selected_actions))
     = Inr [(''reward'', FloatArray [1, 0, 1]), (''pscore'', FloatArray [1/2, 1/2, 1/2]),
            (''action_match'', BoolArray [True, True, True]),
            (''estimated_rewards_by_reg_model'', FloatArray3 [[[0, 0]], [[0, 0]], [[0, 0]]])]"
    by simp
  from same run have r3: "fst (create_estimator_inputs flag_model ?s2 scenario_selected_actions)
     = [Call_predict scenario_feedback None scenario_selected_actions]" by simp
  show ?thesis by (intro conjI) (rule r1 same2 [symmetric] r3 differ ne)+
qed

section \<open>Facts about construction\<close>

lemma first_appearances_set: "set (first_appearances seen ks) = set seen \<union> set ks"
  by (induction ks arbitrary: seen) auto

lemma first_appearances_distinct:
  "distinct seen \<Longrightarrow> distinct (first_appearances seen ks)"
  by (induction ks arbitrary: seen) auto


lemma register_estimators_keys:
  "map fst (register_estimators d ests)
     = first_appearances (map fst d) (map estimator_name ests)"
  by (induction ests arbitrary: d) (simp_all add: dict_setitem_keys)

lemma register_estimators_distinct:
  "distinct (map fst d) \<Longrightarrow> distinct (map fst (register_estimators d ests))"
  by (simp add: register_estimators_keys first_appearances_distinct)

lemma register_estimators_map_of:
  "map_of (register_estimators d ests) name
     = (case filter (\<lambda>e. estimator_name e = name) ests of
          [] \<Rightarrow> map_of d name
        | e # es \<Rightarrow> Some (last (e # es)))"
proof (induction ests arbitrary: d)
  case Nil
  then show ?case by simp
next
  case (Cons a ests)
  show ?case
  proof (cases "estimator_name a = name")
    case True
    then show ?thesis
      by (simp add: Cons.IH dict_setitem_map_of split: list.splits)
  next
    case False
    then show ?thesis
      by (simp add: Cons.IH dict_setitem_map_of split: list.splits)
  qed
qed

lemma post_init_Inr:
  assumes "snd (post_init R fb ests ctx rm) = Inr self"
  shows "bandit_feedback self = fb \<and> ope_estimators self = ests \<and> action_context self = ctx \<and>
         ope_estimators_dict self = register_estimators [] ests \<and>
         (regression_model self = None) = (rm = None)"
  using assms
  by (auto simp: post_init_def Let_def split: option.splits if_splits sum.splits)

lemma post_init_succeeds_iff:
  "(\<exists>self. snd (post_init R fb ests ctx rm) = Inr self)
     = (\<forall>m. rm = Some m \<longrightarrow> check_is_fitted R m \<or> (\<exists>m'. fit R m fb ctx = Inr m'))"
  by (cases rm) (auto simp: post_init_def Let_def split: sum.splits)

lemma post_init_fit_calls:
  "filter is_fit (fst (post_init R fb ests ctx rm))
     = (case rm of
          None \<Rightarrow> []
        | Some m \<Rightarrow> if check_is_fitted R m then [] else [Call_fit fb ctx])"
  by (simp add: post_init_def Let_def is_fit_simps split: option.splits sum.splits)

section \<open>The registry\<close>

text \<open>
  Claim C4. Whether construction raises does not depend on the estimator list: it raises
  only when an unfitted regression model is given and its \<open>fit\<close> raises, so a list with
  repeated names is accepted like any other. In the registry of the constructed object a
  name is mapped to the last estimator of the list that declares it, the keys are exactly
  the names declared in the list, and no key occurs twice.
\<close>

theorem registry_last_registered_wins:
  "((\<exists>self. snd (post_init R fb ests ctx rm) = Inr self)
      = (\<forall>m. rm = Some m \<longrightarrow> check_is_fitted R m \<or> (\<exists>m'. fit R m fb ctx = Inr m'))) \<and>
   (\<forall>self. snd (post_init R fb ests ctx rm) = Inr self \<longrightarrow>
      (\<forall>name. dict_get (ope_estimators_dict self) name
                = (case filter (\<lambda>e. estimator_name e = name) ests of
                     [] \<Rightarrow> None
                   | e # es \<Rightarrow> Some (last (e # es)))) \<and>
      set (dict_keys (ope_estimators_dict self)) = estimator_name ` set ests \<and>
      distinct (dict_keys (ope_estimators_dict self)))"
proof (intro conjI allI impI)
  show "(\<exists>self. snd (post_init R fb ests ctx rm) = Inr self)
      = (\<forall>m. rm = Some m \<longrightarrow> check_is_fitted R m \<or> (\<exists>m'. fit R m fb ctx = Inr m'))"
    by (rule post_init_succeeds_iff)
next
  fix self name assume "snd (post_init R fb ests ctx rm) = Inr self"
  then have reg: "ope_estimators_dict self = register_estimators [] ests"
    by (simp add: post_init_Inr)
  show "dict_get (ope_estimators_dict self) name
          = (case filter (\<lambda>e. estimator_name e = name) ests of
               [] \<Rightarrow> None
             | e # es \<Rightarrow> Some (last (e # es)))"
    unfolding reg dict_get_def by (simp add: register_estimators_map_of split: list.splits)
next
  fix self assume "snd (post_init R fb ests ctx rm) = Inr self"
  then have reg: "ope_estimators_dict self = register_estimators [] ests"
    by (simp add: post_init_Inr)
  show "set (dict_keys (ope_estimators_dict self)) = estimator_name ` set ests"
    unfolding reg dict_keys_def by (simp add: register_estimators_keys first_appearances_set)
next
  fix self assume "snd (post_init R fb ests ctx rm) = Inr self"
  then have reg: "ope_estimators_dict self = register_estimators [] ests"
    by (simp add: post_init_Inr)
  show "distinct (dict_keys (ope_estimators_dict self))"
    unfolding reg dict_keys_def by (simp add: register_estimators_distinct)
qed

theorem registry_last_registered_wins_witness:
  "snd (post_init flag_model scenario_feedback
          [constant_estimator ''dm'' 1, constant_estimator ''ipw'' 2, constant_estimator ''dm'' 3]
          None None)
     = Inr \<lparr>bandit_feedback = scenario_feedback,
            ope_estimators =
              [constant_estimator ''dm'' 1, constant_estimator ''ipw'' 2,
               constant_estimator ''dm'' 3],
            action_context = None, regression_model = None,
            ope_estimators_dict =
              [(''dm'', constant_estimator ''dm'' 3), (''ipw'', constant_estimator ''ipw'' 2)]\<rparr> \<and>
   dict_get [(''dm'', constant_estimator ''dm'' 3), (''ipw'', constant_estimator ''ipw'' 2)] ''dm''
     = Some (constant_estimator ''dm'' 3) \<and>
   set (dict_keys [(''dm'', constant_estimator ''dm'' 3), (''ipw'', constant_estimator ''ipw'' 2)])
     = {''dm'', ''ipw''}"
proof -
  let ?ests = "[constant_estimator ''dm'' 1, constant_estimator ''ipw'' 2,
                constant_estimator ''dm'' 3]"
  let ?self = "\<lparr>bandit_feedback = scenario_feedback, ope_estimators = ?ests,
            action_context = None, regression_model = (None :: bool option),
            ope_estimators_dict =
              [(''dm'', constant_estimator ''dm'' 3), (''ipw'', constant_estimator ''ipw'' 2)]\<rparr>"
  have names: "estimator_name (constant_estimator n v) = n" for n v
    by (simp add: constant_estimator_def)
  have built: "snd (post_init flag_model scenario_feedback ?ests None None) = Inr ?self"
    by (simp add: post_init_def Let_def names)
  from registry_last_registered_wins [of flag_model scenario_feedback ?ests None None] built
  have get: "dict_get (ope_estimators_dict ?self) ''dm''
               = (case filter (\<lambda>e. estimator_name e = ''dm'') ?ests of
                    [] \<Rightarrow> None | e # es \<Rightarrow> Some (last (e # es)))"
    and keys: "set (dict_keys (ope_estimators_dict ?self)) = estimator_name ` set ?ests"
    by blast+
  from get have g: "dict_get [(''dm'', constant_estimator ''dm'' 3),
                      (''ipw'', constant_estimator ''ipw'' 2)] ''dm''
                 = Some (constant_estimator ''dm'' 3)"
    by (simp add: names)
  from keys have k: "set (dict_keys [(''dm'', constant_estimator ''dm'' 3),
                      (''ipw'', constant_estimator ''ipw'' 2)]) = {''dm'', ''ipw''}"
    by (simp add: names insert_commute)
  show ?thesis by (intro conjI) (rule built g k)+
qed

section \<open>Facts about the evaluation methods\<close>

lemma policy_value_loop_no_fit:
  "filter is_fit (fst (policy_value_loop inputs items d)) = []"
proof (induction items arbitrary: d)
  case Nil
  then show ?case by simp
next
  case (Cons item items)
  obtain name est where item: "item = (name, est)" by (cases item)
  show ?case
  proof (cases "estimate_policy_value est inputs")
    case (Inl e)
    then show ?thesis by (simp add: item is_fit_simps)
  next
    case (Inr v)
    obtain calls r where
      rest: "policy_value_loop inputs items (dict_setitem d name v) = (calls, r)"
      by (cases "policy_value_loop inputs items (dict_setitem d name v)")
    with Cons.IH [of "dict_setitem d name v"] have "filter is_fit calls = []" by simp
    with Inr rest show ?thesis by (simp add: item is_fit_simps)
  qed
qed

lemma interval_loop_no_fit:
  "filter is_fit (fst (interval_loop inputs alpha n rs items d)) = []"
proof (induction items arbitrary: d)
  case Nil
  then show ?case by simp
next
  case (Cons item items)
  obtain name est where item: "item = (name, est)" by (cases item)
  show ?case
  proof (cases "estimate_interval est inputs alpha n rs")
    case (Inl e)
    then show ?thesis by (simp add: item is_fit_simps)
  next
    case (Inr v)
    obtain calls r where
      rest: "interval_loop inputs alpha n rs items (dict_setitem d name v) = (calls, r)"
      by (cases "interval_loop inputs alpha n rs items (dict_setitem d name v)")
    with Cons.IH [of "dict_setitem d name v"] have "filter is_fit calls = []" by simp
    with Inr rest show ?thesis by (simp add: item is_fit_simps)
  qed
qed

lemma relative_error_loop_no_fit:
  "filter is_fit (fst (relative_error_loop inputs v items d)) = []"
proof (induction items arbitrary: d)
  case Nil
  then show ?case by simp
next
  case (Cons item items)
  obtain name est where item: "item = (name, est)" by (cases item)
  show ?case
  proof (cases "estimate_policy_value est inputs")
    case (Inl e)
    then show ?thesis by (simp add: item is_fit_simps)
  next
    case est: (Inr x)
    show ?thesis
    proof (cases "np_abs_truediv (py_sub x v) v")
      case (Inl e)
      with est show ?thesis by (simp add: item is_fit_simps)
    next
      case (Inr q)
      obtain calls r where
        rest: "relative_error_loop inputs v items (dict_setitem d name q) = (calls, r)"
        by (cases "relative_error_loop inputs v items (dict_setitem d name q)")
      with Cons.IH [of "dict_setitem d name q"] have "filter is_fit calls = []" by simp
      with est Inr rest show ?thesis by (simp add: item is_fit_simps)
    qed
  qed
qed

lemma estimate_policy_values_unfold:
  "estimate_policy_values R self sa =
     (case snd (snd (create_estimator_inputs R self sa)) of
        Inl e \<Rightarrow> (fst (create_estimator_inputs R self sa), self, Inl e)
      | Inr inputs \<Rightarrow>
          (fst (create_estimator_inputs R self sa)
             @ fst (policy_value_loop inputs (ope_estimators_dict self) []),
           self,
           snd (policy_value_loop inputs (ope_estimators_dict self) [])))"
proof (cases "create_estimator_inputs R self sa")
  case (fields calls self1 r)
  with create_estimator_inputs_self [of R self sa] have "self1 = self" by simp
  with fields show ?thesis
    by (simp add: estimate_policy_values_def split: sum.splits prod.splits)
qed

lemma estimate_intervals_unfold:
  "estimate_intervals R self sa alpha n rs =
     (case snd (snd (create_estimator_inputs R self sa)) of
        Inl e \<Rightarrow> (fst (create_estimator_inputs R self sa), self, Inl e)
      | Inr inputs \<Rightarrow>
          (fst (create_estimator_inputs R self sa)
             @ fst (interval_loop inputs alpha n rs (ope_estimators_dict self) []),
           self,
           snd (interval_loop inputs alpha n rs (ope_estimators_dict self) [])))"
proof (cases "create_estimator_inputs R self sa")
  case (fields calls self1 r)
  with create_estimator_inputs_self [of R self sa] have "self1 = self" by simp
  with fields show ?thesis
    by (simp add: estimate_intervals_def split: sum.splits prod.splits)
qed

lemma evaluate_performance_of_estimators_unfold:
  "evaluate_performance_of_estimators R self sa v =
     (case snd (snd (create_estimator_inputs R self sa)) of
        Inl e \<Rightarrow> (fst (create_estimator_inputs R self sa), self, Inl e)
      | Inr inputs \<Rightarrow>
          (fst (create_estimator_inputs R self sa)
             @ fst (relative_error_loop inputs v (ope_estimators_dict self) []),
           self,
           snd (relative_error_loop inputs v (ope_estimators_dict self) [])))"
proof (cases "create_estimator_inputs R self sa")
  case (fields calls self1 r)
  with create_estimator_inputs_self [of R self sa] have "self1 = self" by simp
  with fields show ?thesis
    by (simp add: evaluate_performance_of_estimators_def split: sum.splits prod.splits)
qed

lemma estimate_policy_values_self: "fst (snd (estimate_policy_values R self sa)) = self"
  by (simp add: estimate_policy_values_unfold split: sum.splits)

lemma estimate_intervals_self: "fst (snd (estimate_intervals R self sa alpha n rs)) = self"
  by (simp add: estimate_intervals_unfold split: sum.splits)

lemma evaluate_performance_of_estimators_self:
  "fst (snd (evaluate_performance_of_estimators R self sa v)) = self"
  by (simp add: evaluate_performance_of_estimators_unfold split: sum.splits)

lemma estimate_policy_values_no_fit:
  "filter is_fit (fst (estimate_policy_values R self sa)) = []"
  by (simp add: estimate_policy_values_unfold create_estimator_inputs_no_fit
        policy_value_loop_no_fit split: sum.splits)

lemma estimate_intervals_no_fit:
  "filter is_fit (fst (estimate_intervals R self sa alpha n rs)) = []"
  by (simp add: estimate_intervals_unfold create_estimator_inputs_no_fit
        interval_loop_no_fit split: sum.splits)

lemma evaluate_performance_of_estimators_no_fit:
  "filter is_fit (fst (evaluate_performance_of_estimators R self sa v)) = []"
  by (simp add: evaluate_performance_of_estimators_unfold create_estimator_inputs_no_fit
        relative_error_loop_no_fit split: sum.splits)

lemma summarize_off_policy_estimates_unfold:
  "summarize_off_policy_estimates R self sa alpha n rs =
     (case snd (snd (estimate_policy_values R self sa)) of
        Inl e \<Rightarrow> (fst (estimate_policy_values R self sa), self, Inl e)
      | Inr vals \<Rightarrow>
          (case snd (snd (estimate_intervals R self sa alpha n rs)) of
             Inl e \<Rightarrow>
               (fst (estimate_policy_values R self sa)
                  @ fst (estimate_intervals R self sa alpha n rs), self, Inl e)
           | Inr intervals \<Rightarrow>
               (fst (estimate_policy_values R self sa)
                  @ fst (estimate_intervals R self sa alpha n rs), self,
                Inr (pd_T (pd_DataFrame_row vals ''estimated_policy_value''),
                     pd_T (pd_DataFrame_columns intervals)))))"
proof (cases "estimate_policy_values R self sa")
  case p: (fields calls self1 r)
  with estimate_policy_values_self [of R self sa] have s1: "self1 = self" by simp
  show ?thesis
  proof (cases "estimate_intervals R self sa alpha n rs")
    case i: (fields calls2 self2 r2)
    with estimate_intervals_self [of R self sa alpha n rs] have s2: "self2 = self" by simp
    from p i s1 s2 show ?thesis
      by (simp add: summarize_off_policy_estimates_def Let_def split: sum.splits)
  qed
qed

lemma summarize_off_policy_estimates_self:
  "fst (snd (summarize_off_policy_estimates R self sa alpha n rs)) = self"
  by (simp add: summarize_off_policy_estimates_unfold split: sum.splits)

lemma summarize_off_policy_estimates_no_fit:
  "filter is_fit (fst (summarize_off_policy_estimates R self sa alpha n rs)) = []"
  by (simp add: summarize_off_policy_estimates_unfold estimate_policy_values_no_fit
        estimate_intervals_no_fit split: sum.splits)

lemma serve_self: "snd (serve R self req) = self"
proof (cases req)
  case (Estimate_policy_values sa)
  with estimate_policy_values_self [of R self sa] show ?thesis
    by (auto split: prod.splits)
next
  case (Estimate_intervals sa alpha n rs)
  with estimate_intervals_self [of R self sa alpha n rs] show ?thesis
    by (auto split: prod.splits)
next
  case (Summarize_off_policy_estimates sa alpha n rs)
  with summarize_off_policy_estimates_self [of R self sa alpha n rs] show ?thesis
    by (auto split: prod.splits)
next
  case (Evaluate_performance_of_estimators sa v)
  with evaluate_performance_of_estimators_self [of R self sa v] show ?thesis
    by (auto split: prod.splits)
next
  case (Summarize_estimators_comparison sa)
  then show ?thesis by (simp add: summarize_estimators_comparison_def)
qed

lemma serve_no_fit: "filter is_fit (fst (serve R self req)) = []"
proof (cases req)
  case (Estimate_policy_values sa)
  with estimate_policy_values_no_fit [of R self sa] show ?thesis
    by (auto split: prod.splits)
next
  case (Estimate_intervals sa alpha n rs)
  with estimate_intervals_no_fit [of R self sa alpha n rs] show ?thesis
    by (auto split: prod.splits)
next
  case (Summarize_off_policy_estimates sa alpha n rs)
  with summarize_off_policy_estimates_no_fit [of R self sa alpha n rs] show ?thesis
    by (auto split: prod.splits)
next
  case (Evaluate_performance_of_estimators sa v)
  with evaluate_performance_of_estimators_no_fit [of R self sa v] show ?thesis
    by (auto split: prod.splits)
next
  case (Summarize_estimators_comparison sa)
  then show ?thesis by (simp add: summarize_estimators_comparison_def)
qed

lemma serve_all_no_fit: "filter is_fit (serve_all R self reqs) = []"
proof (induction reqs arbitrary: self)
  case Nil
  then show ?case by simp
next
  case (Cons req reqs)
  obtain calls self1 where s: "serve R self req = (calls, self1)" by (cases "serve R self req")
  with serve_no_fit [of R self req] have "filter is_fit calls = []" by simp
  with s Cons.IH [of self1] show ?case by simp
qed

lemma lifetime_fit_calls:
  "filter is_fit (lifetime R fb ests ctx rm reqs) = filter is_fit (fst (post_init R fb ests ctx rm))"
  by (cases "post_init R fb ests ctx rm")
     (simp add: lifetime_def serve_all_no_fit split: sum.splits)

section \<open>The regression model is fitted at most once\<close>

text \<open>
  Claim C3. Construction calls \<open>fit\<close> exactly once, on the feedback and the action context
  of the orchestrator, when a regression model is given and \<open>check_is_fitted\<close> reports it
  unfitted; it does not call \<open>fit\<close> when the model is fitted or when none is given. No
  evaluation method (point estimates, intervals, the two summaries, the performance
  comparison) calls \<open>fit\<close> or changes the orchestrator. So over the lifetime of an
  orchestrator, whatever sequence of evaluation requests follows its construction, \<open>fit\<close>
  is called at most once, and only by the construction.
\<close>

theorem fit_at_most_once_at_construction:
  "filter is_fit (fst (post_init R fb ests ctx rm))
     = (case rm of
          None \<Rightarrow> []
        | Some m \<Rightarrow> if check_is_fitted R m then [] else [Call_fit fb ctx]) \<and>
   filter is_fit (fst (serve R self req)) = [] \<and>
   snd (serve R self req) = self \<and>
   filter is_fit (serve_all R self reqs) = [] \<and>
   filter is_fit (lifetime R fb ests ctx rm reqs)
     = filter is_fit (fst (post_init R fb ests ctx rm)) \<and>
   length (filter is_fit (lifetime R fb ests ctx rm reqs)) \<le> 1"
  by (simp add: post_init_fit_calls serve_no_fit serve_self serve_all_no_fit
        lifetime_fit_calls split: option.splits)

theorem fit_at_most_once_at_construction_witness:
  "lifetime flag_model scenario_feedback [constant_estimator ''rm'' (1/2)] None (Some False)
     [Estimate_policy_values scenario_selected_actions,
      Evaluate_performance_of_estimators scenario_selected_actions (Python_float (Finite 1)),
      Estimate_policy_values scenario_selected_actions]
   = [Call_check_is_fitted, Call_fit scenario_feedback None,
      Call_predict scenario_feedback None scenario_selected_actions,
      Call_estimate_policy_value ''rm''
        [(''reward'', FloatArray [1, 0, 1]), (''pscore'', FloatArray [1/2, 1/2, 1/2]),
         (''action_match'', BoolArray [True, True, True]),
         (''estimated_rewards_by_reg_model'', FloatArray3 [[[0, 0]], [[0, 0]], [[0, 0]]])],
      Call_predict scenario_feedback None scenario_selected_actions,
      Call_estimate_policy_value ''rm''
        [(''reward'', FloatArray [1, 0, 1]), (''pscore'', FloatArray [1/2, 1/2, 1/2]),
         (''action_match'', BoolArray [True, True, True]),
         (''estimated_rewards_by_reg_model'', FloatArray3 [[[0, 0]], [[0, 0]], [[0, 0]]])],
      Call_predict scenario_feedback None scenario_selected_actions,
      Call_estimate_policy_value ''rm''
        [(''reward'', FloatArray [1, 0, 1]), (''pscore'', FloatArray [1/2, 1/2, 1/2]),
         (''action_match'', BoolArray [True, True, True]),
         (''estimated_rewards_by_reg_model'', FloatArray3 [[[0, 0]], [[0, 0]], [[0, 0]]])]] \<and>
   filter is_fit (lifetime flag_model scenario_feedback [constant_estimator ''rm'' (1/2)] None
     (Some False)
     [Estimate_policy_values scenario_selected_actions,
      Evaluate_performance_of_estimators scenario_selected_actions (Python_float (Finite 1)),
      Estimate_policy_values scenario_selected_actions])
   = [Call_fit scenario_feedback None]"
proof -
  let ?reqs = "[Estimate_policy_values scenario_selected_actions,
      Evaluate_performance_of_estimators scenario_selected_actions (Python_float (Finite 1)),
      Estimate_policy_values scenario_selected_actions]"
  have run: "lifetime flag_model scenario_feedback [constant_estimator ''rm'' (1/2)] None
      (Some False) ?reqs
   = [Call_check_is_fitted, Call_fit scenario_feedback None,
      Call_predict scenario_feedback None scenario_selected_actions,
      Call_estimate_policy_value ''rm''
        [(''reward'', FloatArray [1, 0, 1]), (''pscore'', FloatArray [1/2, 1/2, 1/2]),
         (''action_match'', BoolArray [True, True, True]),
         (''estimated_rewards_by_reg_model'', FloatArray3 [[[0, 0]], [[0, 0]], [[0, 0]]])],
      Call_predict scenario_feedback None scenario_selected_actions,
      Call_estimate_policy_value ''rm''
        [(''reward'', FloatArray [1, 0, 1]), (''pscore'', FloatArray [1/2, 1/2, 1/2]),
         (''action_match'', BoolArray [True, True, True]),
         (''estimated_rewards_by_reg_model'', FloatArray3 [[[0, 0]], [[0, 0]], [[0, 0]]])],
      Call_predict scenario_feedback None scenario_selected_actions,
      Call_estimate_policy_value ''rm''
        [(''reward'', FloatArray [1, 0, 1]), (''pscore'', FloatArray [1/2, 1/2, 1/2]),
         (''action_match'', BoolArray [True, True, True]),
         (''estimated_rewards_by_reg_model'', FloatArray3 [[[0, 0]], [[0, 0]], [[0, 0]]])]]"
    by (simp add: lifetime_def post_init_def flag_model_def constant_estimator_def
          estimate_policy_values_def evaluate_performance_of_estimators_def
          create_estimator_inputs_def scenario_feedback_def
          scenario_selected_actions_def action_match_of_def np_take2_def np_broadcast_def
          np_arange_def np_item2_def np_index_def np_equal_def np_abs_truediv_def py_sub_def
          is_numpy_def float_of_def Let_def
          upt_conv_Cons)
  from fit_at_most_once_at_construction
    [where R = flag_model and fb = scenario_feedback
       and ests = "[constant_estimator ''rm'' (1/2)]" and ctx = None and rm = "Some False"
       and reqs = ?reqs]
  have "filter is_fit (lifetime flag_model scenario_feedback [constant_estimator ''rm'' (1/2)]
          None (Some False) ?reqs)
        = filter is_fit (fst (post_init flag_model scenario_feedback
            [constant_estimator ''rm'' (1/2)] None (Some False)))"
    by blast
  also have "\<dots> = [Call_fit scenario_feedback None]"
    by (simp add: post_init_def flag_model_def Let_def is_fit_simps)
  finally show ?thesis using run by blast
qed

section \<open>The optional entry of the estimator inputs\<close>

lemma post_init_model:
  assumes "snd (post_init R fb ests ctx rm) = Inr self"
  shows "regression_model self =
           (case rm of
              None \<Rightarrow> None
            | Some m0 \<Rightarrow> if check_is_fitted R m0 then Some m0
                         else (case fit R m0 fb ctx of Inl e \<Rightarrow> None | Inr m' \<Rightarrow> Some m'))"
  using assms
  by (auto simp: post_init_def Let_def split: option.splits if_splits sum.splits)

lemma create_estimator_inputs_payload:
  assumes "snd (snd (create_estimator_inputs R self sa)) = Inr inputs"
  shows "\<exists>am. action_match_of (bandit_feedback self) sa = Inr am \<and>
           (case regression_model self of
              None \<Rightarrow>
                inputs = [(''reward'', FloatArray (reward (bandit_feedback self))),
                          (''pscore'', FloatArray (pscore (bandit_feedback self))),
                          (''action_match'', BoolArray am)]
            | Some m \<Rightarrow>
                (\<exists>est. predict R m (bandit_feedback self) (action_context self) sa = Inr est \<and>
                   inputs = [(''reward'', FloatArray (reward (bandit_feedback self))),
                             (''pscore'', FloatArray (pscore (bandit_feedback self))),
                             (''action_match'', BoolArray am),
                             (''estimated_rewards_by_reg_model'', FloatArray3 est)]))"
  using assms
  by (auto simp: create_estimator_inputs_def Let_def split: sum.splits option.splits)

text \<open>
  Claim C5. Take an orchestrator that construction returned; its regression model is absent
  exactly when none was given to the constructor, and otherwise it is the given model,
  in the state \<open>fit\<close> left it in if the constructor fitted it. When the feedback and the selected actions fit,
  \<open>_create_estimator_inputs\<close> behaves as follows. Without a regression model it calls no
  collaborator and returns the dictionary with the keys \<open>reward\<close>, \<open>pscore\<close> and
  \<open>action_match\<close> only. With a regression model it calls \<open>predict\<close> once, on the feedback,
  the action context and the selected actions; when \<open>predict\<close> returns, the method returns
  the dictionary with these three keys and \<open>estimated_rewards_by_reg_model\<close>, which holds
  what \<open>predict\<close> returned; when \<open>predict\<close> raises, so does the method. And whenever the method
  returns a dictionary, for any selected actions: the key \<open>estimated_rewards_by_reg_model\<close>
  is in it exactly when a regression model was given to the constructor, its value is then
  the result of \<open>predict\<close>, and the entries \<open>reward\<close> and \<open>pscore\<close> are those arrays of the
  feedback.
\<close>

theorem estimated_rewards_present_iff_model_configured:
  assumes "snd (post_init R fb ests ctx rm) = Inr self"
  shows "((regression_model self = None) = (rm = None)) \<and>
         regression_model self =
           (case rm of
              None \<Rightarrow> None
            | Some m0 \<Rightarrow> if check_is_fitted R m0 then Some m0
                         else (case fit R m0 fb ctx of Inl e \<Rightarrow> None | Inr m' \<Rightarrow> Some m')) \<and>
         (fits fb sa \<longrightarrow>
            (rm = None \<longrightarrow>
               (\<exists>am. create_estimator_inputs R self sa =
                  ([], self,
                   Inr [(''reward'', FloatArray (reward fb)), (''pscore'', FloatArray (pscore fb)),
                        (''action_match'', BoolArray am)]))) \<and>
            (\<forall>m. regression_model self = Some m \<longrightarrow>
               (\<forall>est. predict R m fb ctx sa = Inr est \<longrightarrow>
                  (\<exists>am. create_estimator_inputs R self sa =
                     ([Call_predict fb ctx sa], self,
                      Inr [(''reward'', FloatArray (reward fb)),
                           (''pscore'', FloatArray (pscore fb)),
                           (''action_match'', BoolArray am),
                           (''estimated_rewards_by_reg_model'', FloatArray3 est)]))) \<and>
               (\<forall>e. predict R m fb ctx sa = Inl e \<longrightarrow>
                  create_estimator_inputs R self sa = ([Call_predict fb ctx sa], self, Inl e)))) \<and>
         (\<forall>inputs. snd (snd (create_estimator_inputs R self sa)) = Inr inputs \<longrightarrow>
            ((''estimated_rewards_by_reg_model'' \<in> set (dict_keys inputs)) = (rm \<noteq> None)) \<and>
            (\<forall>m. regression_model self = Some m \<longrightarrow>
               (\<exists>est. predict R m fb ctx sa = Inr est \<and>
                  dict_get inputs ''estimated_rewards_by_reg_model'' = Some (FloatArray3 est)) \<and>
               fst (create_estimator_inputs R self sa) = [Call_predict fb ctx sa]) \<and>
            (rm = None \<longrightarrow>
               dict_get inputs ''estimated_rewards_by_reg_model'' = None \<and>
               fst (create_estimator_inputs R self sa) = []) \<and>
            dict_get inputs ''reward'' = Some (FloatArray (reward fb)) \<and>
            dict_get inputs ''pscore'' = Some (FloatArray (pscore fb)) \<and>
            dict_keys inputs
              = [''reward'', ''pscore'', ''action_match'']
                  @ (if rm = None then [] else [''estimated_rewards_by_reg_model'']))"
proof (intro conjI)
  from post_init_Inr [OF assms] have fb: "bandit_feedback self = fb"
    and ctx: "action_context self = ctx"
    and rm: "(regression_model self = None) = (rm = None)" by simp_all
  show "(regression_model self = None) = (rm = None)" by (rule rm)
  show "regression_model self =
           (case rm of
              None \<Rightarrow> None
            | Some m0 \<Rightarrow> if check_is_fitted R m0 then Some m0
                         else (case fit R m0 fb ctx of Inl e \<Rightarrow> None | Inr m' \<Rightarrow> Some m'))"
    by (rule post_init_model [OF assms])
  show "fits fb sa \<longrightarrow>
            (rm = None \<longrightarrow>
               (\<exists>am. create_estimator_inputs R self sa =
                  ([], self,
                   Inr [(''reward'', FloatArray (reward fb)), (''pscore'', FloatArray (pscore fb)),
                        (''action_match'', BoolArray am)]))) \<and>
            (\<forall>m. regression_model self = Some m \<longrightarrow>
               (\<forall>est. predict R m fb ctx sa = Inr est \<longrightarrow>
                  (\<exists>am. create_estimator_inputs R self sa =
                     ([Call_predict fb ctx sa], self,
                      Inr [(''reward'', FloatArray (reward fb)),
                           (''pscore'', FloatArray (pscore fb)),
                           (''action_match'', BoolArray am),
                           (''estimated_rewards_by_reg_model'', FloatArray3 est)]))) \<and>
               (\<forall>e. predict R m fb ctx sa = Inl e \<longrightarrow>
                  create_estimator_inputs R self sa = ([Call_predict fb ctx sa], self, Inl e)))"
  proof
    assume f: "fits fb sa"
    have am: "action_match_of (bandit_feedback self) sa =
           Inr (map (\<lambda>i. action fb ! i = sa ! i ! column (sa ! i) (position fb ! i))
                  [0..<nat (n_rounds fb)])"
      unfolding fb by (rule action_match_of_fits [OF f])
    show "(rm = None \<longrightarrow>
               (\<exists>am. create_estimator_inputs R self sa =
                  ([], self,
                   Inr [(''reward'', FloatArray (reward fb)), (''pscore'', FloatArray (pscore fb)),
                        (''action_match'', BoolArray am)]))) \<and>
            (\<forall>m. regression_model self = Some m \<longrightarrow>
               (\<forall>est. predict R m fb ctx sa = Inr est \<longrightarrow>
                  (\<exists>am. create_estimator_inputs R self sa =
                     ([Call_predict fb ctx sa], self,
                      Inr [(''reward'', FloatArray (reward fb)),
                           (''pscore'', FloatArray (pscore fb)),
                           (''action_match'', BoolArray am),
                           (''estimated_rewards_by_reg_model'', FloatArray3 est)]))) \<and>
               (\<forall>e. predict R m fb ctx sa = Inl e \<longrightarrow>
                  create_estimator_inputs R self sa = ([Call_predict fb ctx sa], self, Inl e)))"
    proof (cases "regression_model self")
      case None
      with rm have "rm = None" by simp
      with None show ?thesis by (simp add: create_estimator_inputs_unfold am) (simp add: fb)
    next
      case (Some m)
      with rm have "rm \<noteq> None" by auto
      with Some show ?thesis
        by (simp add: create_estimator_inputs_unfold am) (auto simp: fb ctx)
    qed
  qed
  show "\<forall>inputs. snd (snd (create_estimator_inputs R self sa)) = Inr inputs \<longrightarrow>
            ((''estimated_rewards_by_reg_model'' \<in> set (dict_keys inputs)) = (rm \<noteq> None)) \<and>
            (\<forall>m. regression_model self = Some m \<longrightarrow>
               (\<exists>est. predict R m fb ctx sa = Inr est \<and>
                  dict_get inputs ''estimated_rewards_by_reg_model'' = Some (FloatArray3 est)) \<and>
               fst (create_estimator_inputs R self sa) = [Call_predict fb ctx sa]) \<and>
            (rm = None \<longrightarrow>
               dict_get inputs ''estimated_rewards_by_reg_model'' = None \<and>
               fst (create_estimator_inputs R self sa) = []) \<and>
            dict_get inputs ''reward'' = Some (FloatArray (reward fb)) \<and>
            dict_get inputs ''pscore'' = Some (FloatArray (pscore fb)) \<and>
            dict_keys inputs
              = [''reward'', ''pscore'', ''action_match'']
                  @ (if rm = None then [] else [''estimated_rewards_by_reg_model''])"
  proof (intro allI impI)
    fix inputs
    assume r: "snd (snd (create_estimator_inputs R self sa)) = Inr inputs"
    from create_estimator_inputs_payload [OF r] obtain am where
      am: "action_match_of fb sa = Inr am"
      and shape: "case regression_model self of
              None \<Rightarrow>
                inputs = [(''reward'', FloatArray (reward fb)),
                          (''pscore'', FloatArray (pscore fb)),
                          (''action_match'', BoolArray am)]
            | Some m \<Rightarrow>
                (\<exists>est. predict R m fb ctx sa = Inr est \<and>
                   inputs = [(''reward'', FloatArray (reward fb)),
                             (''pscore'', FloatArray (pscore fb)),
                             (''action_match'', BoolArray am),
                             (''estimated_rewards_by_reg_model'', FloatArray3 est)])"
      unfolding fb ctx by blast
    have calls: "fst (create_estimator_inputs R self sa)
                 = (case regression_model self of
                      None \<Rightarrow> [] | Some m \<Rightarrow> [Call_predict fb ctx sa])"
      by (simp add: create_estimator_inputs_calls fb ctx am split: option.splits)
    show "((''estimated_rewards_by_reg_model'' \<in> set (dict_keys inputs)) = (rm \<noteq> None)) \<and>
            (\<forall>m. regression_model self = Some m \<longrightarrow>
               (\<exists>est. predict R m fb ctx sa = Inr est \<and>
                  dict_get inputs ''estimated_rewards_by_reg_model'' = Some (FloatArray3 est)) \<and>
               fst (create_estimator_inputs R self sa) = [Call_predict fb ctx sa]) \<and>
            (rm = None \<longrightarrow>
               dict_get inputs ''estimated_rewards_by_reg_model'' = None \<and>
               fst (create_estimator_inputs R self sa) = []) \<and>
            dict_get inputs ''reward'' = Some (FloatArray (reward fb)) \<and>
            dict_get inputs ''pscore'' = Some (FloatArray (pscore fb)) \<and>
            dict_keys inputs
              = [''reward'', ''pscore'', ''action_match'']
                  @ (if rm = None then [] else [''estimated_rewards_by_reg_model''])"
    proof (cases "regression_model self")
      case None
      with rm have "rm = None" by simp
      with None shape calls show ?thesis by (simp add: dict_keys_def dict_get_def)
    next
      case (Some m)
      with rm have "rm \<noteq> None" by auto
      with Some shape calls show ?thesis by (auto simp: dict_keys_def dict_get_def)
    qed
  qed
qed

theorem estimated_rewards_present_iff_model_configured_witness:
  "snd (post_init flag_model scenario_feedback [] None (Some False))
     = Inr \<lparr>bandit_feedback = scenario_feedback, ope_estimators = [], action_context = None,
            regression_model = Some True, ope_estimators_dict = []\<rparr> \<and>
   fits scenario_feedback scenario_selected_actions \<and>
   predict flag_model True scenario_feedback None scenario_selected_actions
     = Inr [[[0, 0]], [[0, 0]], [[0, 0]]] \<and>
   (\<exists>am. create_estimator_inputs flag_model
          \<lparr>bandit_feedback = scenario_feedback, ope_estimators = [], action_context = None,
            regression_model = Some True, ope_estimators_dict = []\<rparr> scenario_selected_actions
     = ([Call_predict scenario_feedback None scenario_selected_actions],
        \<lparr>bandit_feedback = scenario_feedback, ope_estimators = [], action_context = None,
            regression_model = Some True, ope_estimators_dict = []\<rparr>,
        Inr [(''reward'', FloatArray [1, 0, 1]), (''pscore'', FloatArray [1/2, 1/2, 1/2]),
            (''action_match'', BoolArray am),
            (''estimated_rewards_by_reg_model'', FloatArray3 [[[0, 0]], [[0, 0]], [[0, 0]]])])) \<and>
   snd (post_init flag_model scenario_feedback [] None None) = Inr
     \<lparr>bandit_feedback = scenario_feedback, ope_estimators = [], action_context = None,
      regression_model = None, ope_estimators_dict = []\<rparr> \<and>
   (\<exists>am. create_estimator_inputs flag_model
          \<lparr>bandit_feedback = scenario_feedback, ope_estimators = [], action_context = None,
            regression_model = None, ope_estimators_dict = []\<rparr> scenario_selected_actions
     = ([],
        \<lparr>bandit_feedback = scenario_feedback, ope_estimators = [], action_context = None,
            regression_model = None, ope_estimators_dict = []\<rparr>,
        Inr [(''reward'', FloatArray [1, 0, 1]), (''pscore'', FloatArray [1/2, 1/2, 1/2]),
            (''action_match'', BoolArray am)])) \<and>
   ''estimated_rewards_by_reg_model''
     \<in> set (dict_keys
          [(''reward'', FloatArray [1, 0, 1]), (''pscore'', FloatArray [1/2, 1/2, 1/2]),
           (''action_match'', BoolArray [True, True, True]),
           (''estimated_rewards_by_reg_model'', FloatArray3 [[[0, 0]], [[0, 0]], [[0, 0]]])]) \<and>
   ''estimated_rewards_by_reg_model''
     \<notin> set (dict_keys
          [(''reward'', FloatArray [1, 0, 1]), (''pscore'', FloatArray [1/2, 1/2, 1/2]),
           (''action_match'', BoolArray [True, True, True])])"
proof -
  let ?with = "\<lparr>bandit_feedback = scenario_feedback, ope_estimators = [], action_context = None,
            regression_model = Some True, ope_estimators_dict = []\<rparr>"
  let ?without = "\<lparr>bandit_feedback = scenario_feedback, ope_estimators = [],
            action_context = None, regression_model = (None :: bool option),
            ope_estimators_dict = []\<rparr>"
  let ?est = "[[[0, 0]], [[0, 0]], [[0, 0 :: real]]]"
  let ?inputs_with = "[(''reward'', FloatArray [1, 0, 1]), (''pscore'', FloatArray [1/2, 1/2, 1/2]),
            (''action_match'', BoolArray [True, True, True]),
            (''estimated_rewards_by_reg_model'', FloatArray3 ?est)]"
  let ?inputs_without = "[(''reward'', FloatArray [1, 0, 1]),
            (''pscore'', FloatArray [1/2, 1/2, 1/2]),
            (''action_match'', BoolArray [True, True, True])]"
  have rp: "reward scenario_feedback = [1, 0, 1]" "pscore scenario_feedback = [1/2, 1/2, 1/2]"
    by (simp_all add: scenario_feedback_def)
  have c1: "snd (post_init flag_model scenario_feedback [] None (Some False)) = Inr ?with"
    by (simp add: post_init_def flag_model_def Let_def)
  have pr: "predict flag_model True scenario_feedback None scenario_selected_actions = Inr ?est"
    by (simp add: flag_model_def scenario_selected_actions_def)
  from estimated_rewards_present_iff_model_configured
         [OF c1, where sa = scenario_selected_actions,
          THEN conjunct2, THEN conjunct2, THEN conjunct1, rule_format, OF scenario_fits]
  have "\<forall>m. regression_model ?with = Some m \<longrightarrow>
               (\<forall>est. predict flag_model m scenario_feedback None scenario_selected_actions
                        = Inr est \<longrightarrow>
                  (\<exists>am. create_estimator_inputs flag_model ?with scenario_selected_actions =
                     ([Call_predict scenario_feedback None scenario_selected_actions], ?with,
                      Inr [(''reward'', FloatArray (reward scenario_feedback)),
                           (''pscore'', FloatArray (pscore scenario_feedback)),
                           (''action_match'', BoolArray am),
                           (''estimated_rewards_by_reg_model'', FloatArray3 est)])))"
    by blast
  from this [rule_format, of True, OF _ pr]
  have p1: "\<exists>am. create_estimator_inputs flag_model ?with scenario_selected_actions
     = ([Call_predict scenario_feedback None scenario_selected_actions], ?with,
        Inr [(''reward'', FloatArray [1, 0, 1]), (''pscore'', FloatArray [1/2, 1/2, 1/2]),
            (''action_match'', BoolArray am),
            (''estimated_rewards_by_reg_model'', FloatArray3 ?est)])"
    by (simp add: rp)
  have c2: "snd (post_init flag_model scenario_feedback [] None None) = Inr ?without"
    by (simp add: post_init_def Let_def)
  from estimated_rewards_present_iff_model_configured
         [OF c2, where sa = scenario_selected_actions,
          THEN conjunct2, THEN conjunct2, THEN conjunct1, rule_format, OF scenario_fits]
  have p2: "\<exists>am. create_estimator_inputs flag_model ?without scenario_selected_actions
     = ([], ?without,
        Inr [(''reward'', FloatArray [1, 0, 1]), (''pscore'', FloatArray [1/2, 1/2, 1/2]),
            (''action_match'', BoolArray am)])"
    by (simp add: rp)
  have r1: "snd (snd (create_estimator_inputs flag_model ?with scenario_selected_actions))
              = Inr ?inputs_with"
    by (simp add: create_estimator_inputs_unfold scenario_action_match pr rp)
  have r2: "snd (snd (create_estimator_inputs flag_model ?without scenario_selected_actions))
              = Inr ?inputs_without"
    by (simp add: create_estimator_inputs_unfold scenario_action_match rp)
  from estimated_rewards_present_iff_model_configured
         [OF c1, where sa = scenario_selected_actions,
          THEN conjunct2, THEN conjunct2, THEN conjunct2, rule_format, OF r1]
  have k1: "''estimated_rewards_by_reg_model'' \<in> set (dict_keys ?inputs_with)" by simp
  from estimated_rewards_present_iff_model_configured
         [OF c2, where sa = scenario_selected_actions,
          THEN conjunct2, THEN conjunct2, THEN conjunct2, rule_format, OF r2]
  have k2: "''estimated_rewards_by_reg_model'' \<notin> set (dict_keys ?inputs_without)" by simp
  show ?thesis by (intro conjI) (rule c1 scenario_fits pr p1 c2 p2 k1 k2)+
qed

section \<open>Facts about the loops over the registry\<close>

lemma point_payloads_append:
  "point_payloads name (xs @ ys) = point_payloads name xs @ point_payloads name ys"
  by (induction xs) simp_all

lemma interval_payloads_append:
  "interval_payloads name (xs @ ys) = interval_payloads name xs @ interval_payloads name ys"
  by (induction xs) simp_all

lemma point_payloads_point_calls:
  "point_payloads name (map (\<lambda>item. Call_estimate_policy_value (fst item) inputs) items)
     = map (\<lambda>item. inputs) (filter (\<lambda>item. fst item = name) items)"
  by (induction items) simp_all



lemma interval_payloads_point_calls:
  "interval_payloads name (map (\<lambda>item. Call_estimate_policy_value (fst item) inputs) items)
     = []"
  by (induction items) simp_all

lemma payloads_of_predict_calls:
  "point_payloads name
     (case rmodel of None \<Rightarrow> [] | Some m \<Rightarrow> [Call_predict fb ctx sa]) = [] \<and>
   interval_payloads name
     (case rmodel of None \<Rightarrow> [] | Some m \<Rightarrow> [Call_predict fb ctx sa]) = []"
  by (simp split: option.splits)

lemma filter_key_absent:
  "name \<notin> fst ` set items \<Longrightarrow> filter (\<lambda>item. fst item = name) items = []"
  by (induction items) auto

lemma filter_key_distinct:
  "distinct (map fst items) \<Longrightarrow> name \<in> fst ` set items \<Longrightarrow>
     map (\<lambda>item. c) (filter (\<lambda>item. fst item = name) items) = [c]"
proof (induction items)
  case Nil
  then show ?case by simp
next
  case (Cons item items)
  show ?case
  proof (cases "fst item = name")
    case True
    from Cons.prems(1) have "fst item \<notin> fst ` set items" by simp
    with True have "name \<notin> fst ` set items" by simp
    from filter_key_absent [OF this] True show ?thesis by simp
  next
    case False
    with Cons show ?thesis by auto
  qed
qed

lemma policy_value_loop_all_return:
  assumes "\<forall>item\<in>set items. \<exists>v. estimate_policy_value (snd item) inputs = Inr v"
    and "distinct (map fst items)" and "fst ` set d \<inter> fst ` set items = {}"
  shows "policy_value_loop inputs items d =
           (map (\<lambda>item. Call_estimate_policy_value (fst item) inputs) items,
            Inr (d @ map (\<lambda>item. (fst item, projr (estimate_policy_value (snd item) inputs)))
                       items))"
  using assms
proof (induction items arbitrary: d)
  case Nil
  then show ?case by simp
next
  case (Cons item items)
  obtain name est where item: "item = (name, est)" by (cases item)
  from Cons.prems(1) item obtain v where v: "estimate_policy_value est inputs = Inr v" by auto
  from Cons.prems(3) item have fresh: "name \<notin> fst ` set d" by auto
  have step: "dict_setitem d name v = d @ [(name, v)]"
    by (rule dict_setitem_fresh [OF fresh])
  have rest: "policy_value_loop inputs items (d @ [(name, v)]) =
           (map (\<lambda>item. Call_estimate_policy_value (fst item) inputs) items,
            Inr ((d @ [(name, v)])
                 @ map (\<lambda>item. (fst item, projr (estimate_policy_value (snd item) inputs)))
                     items))"
  proof (rule Cons.IH)
    show "\<forall>item\<in>set items. \<exists>v. estimate_policy_value (snd item) inputs = Inr v"
      using Cons.prems(1) by simp
    show "distinct (map fst items)" using Cons.prems(2) by simp
    show "fst ` set (d @ [(name, v)]) \<inter> fst ` set items = {}"
      using Cons.prems(2) Cons.prems(3) item by auto
  qed
  show ?case by (simp add: item v step rest)
qed


lemma dict_setitem_values:
  "(k', v') \<in> set (dict_setitem d k v) \<Longrightarrow> v' = v \<or> (k', v') \<in> set d"
  by (induction d) (auto split: if_splits)

lemma register_estimators_values:
  "(k, e) \<in> set (register_estimators d ests) \<Longrightarrow> e \<in> set ests \<or> (k, e) \<in> set d"
proof (induction ests arbitrary: d)
  case Nil
  then show ?case by simp
next
  case (Cons a ests)
  from Cons.prems have "(k, e) \<in> set (register_estimators (dict_setitem d (estimator_name a) a) ests)"
    by simp
  from Cons.IH [OF this] dict_setitem_values [of k e d "estimator_name a" a]
  show ?case by auto
qed

lemma registry_items:
  assumes "snd (post_init R fb ests ctx rm) = Inr self"
  shows "distinct (map fst (ope_estimators_dict self)) \<and>
         snd ` set (ope_estimators_dict self) \<subseteq> set ests \<and>
         map fst (ope_estimators_dict self) = first_appearances [] (map estimator_name ests) \<and>
         fst ` set (ope_estimators_dict self) = estimator_name ` set ests"
proof -
  from post_init_Inr [OF assms] have reg: "ope_estimators_dict self = register_estimators [] ests"
    by simp
  have d: "distinct (map fst (register_estimators [] ests))"
    by (simp add: register_estimators_distinct)
  have v: "snd ` set (register_estimators [] ests) \<subseteq> set ests"
    using register_estimators_values [of _ _ "[]" ests] by auto
  have k: "map fst (register_estimators [] ests) = first_appearances [] (map estimator_name ests)"
    by (simp add: register_estimators_keys)
  have "set (map fst (register_estimators [] ests)) = estimator_name ` set ests"
    unfolding k by (simp add: first_appearances_set)
  then have s: "fst ` set (register_estimators [] ests) = estimator_name ` set ests" by simp
  from d v k s show ?thesis unfolding reg by simp
qed

lemma inputs_built:
  assumes "snd (post_init R fb ests ctx rm) = Inr self" and "fits fb sa"
    and "\<forall>m. regression_model self = Some m \<longrightarrow> (\<exists>est. predict R m fb ctx sa = Inr est)"
  shows "\<exists>inputs. create_estimator_inputs R self sa =
           ((case regression_model self of None \<Rightarrow> [] | Some m \<Rightarrow> [Call_predict fb ctx sa]),
            self, Inr inputs)"
proof -
  from post_init_Inr [OF assms(1)] have fb: "bandit_feedback self = fb"
    and ctx: "action_context self = ctx" by simp_all
  have am: "action_match_of (bandit_feedback self) sa =
           Inr (map (\<lambda>i. action fb ! i = sa ! i ! column (sa ! i) (position fb ! i))
                  [0..<nat (n_rounds fb)])"
    unfolding fb by (rule action_match_of_fits [OF assms(2)])
  show ?thesis
  proof (cases "regression_model self")
    case None
    then show ?thesis by (simp add: create_estimator_inputs_unfold am)
  next
    case (Some m)
    with assms(3) obtain est where "predict R m fb ctx sa = Inr est" by auto
    with Some show ?thesis
      by (simp add: create_estimator_inputs_unfold am) (simp add: fb ctx)
  qed
qed

lemma map_of_map_values:
  "map_of (map (\<lambda>item. (fst item, f (snd item))) xs) k = map_option f (map_of xs k)"
  by (induction xs) auto

lemma estimate_policy_values_all_return:
  assumes "create_estimator_inputs R self sa = (pcalls, self, Inr inputs)"
    and "distinct (map fst (ope_estimators_dict self))"
    and "\<forall>item\<in>set (ope_estimators_dict self).
           \<exists>v. estimate_policy_value (snd item) inputs = Inr v"
  shows "estimate_policy_values R self sa =
           (pcalls @ map (\<lambda>item. Call_estimate_policy_value (fst item) inputs)
                       (ope_estimators_dict self),
            self,
            Inr (map (\<lambda>item. (fst item, projr (estimate_policy_value (snd item) inputs)))
                   (ope_estimators_dict self)))"
proof -
  have "policy_value_loop inputs (ope_estimators_dict self) [] =
           (map (\<lambda>item. Call_estimate_policy_value (fst item) inputs) (ope_estimators_dict self),
            Inr ([] @ map (\<lambda>item. (fst item, projr (estimate_policy_value (snd item) inputs)))
                       (ope_estimators_dict self)))"
    by (rule policy_value_loop_all_return [OF assms(3) assms(2)]) simp
  with assms(1) show ?thesis by (simp add: estimate_policy_values_def)
qed


section \<open>Point estimates share one dictionary\<close>

text \<open>
  Claim C8. Take an orchestrator that construction returned, selected actions that fit its
  feedback, a regression model (if one is configured) whose \<open>predict\<close> returns, and
  estimators whose point-estimate operation returns on the dictionary that the method
  builds. Then \<open>estimate_policy_values\<close> builds the estimator inputs once (\<open>predict\<close> is
  called once when a regression model is configured, and not at all otherwise), then calls
  the point-estimate operation of the registered estimators in the order of the registry,
  each exactly once and each with that same dictionary, and calls nothing else. It leaves
  the orchestrator unchanged and returns a dictionary whose keys are the keys of the
  registry in the same order, that is the names declared in the estimator list, each once,
  and whose value under a name is what the estimator registered under it returned on the
  shared dictionary.
\<close>

theorem estimate_policy_values_shared_payload:
  assumes "snd (post_init R fb ests ctx rm) = Inr self"
    and "fits fb sa"
    and "\<forall>m. regression_model self = Some m \<longrightarrow> (\<exists>est. predict R m fb ctx sa = Inr est)"
    and "\<forall>inputs. snd (snd (create_estimator_inputs R self sa)) = Inr inputs \<longrightarrow>
           (\<forall>est\<in>set ests. \<exists>v. estimate_policy_value est inputs = Inr v)"
  shows "\<exists>inputs.
           create_estimator_inputs R self sa =
             ((case regression_model self of None \<Rightarrow> [] | Some m \<Rightarrow> [Call_predict fb ctx sa]),
              self, Inr inputs) \<and>
           estimate_policy_values R self sa =
             ((case regression_model self of None \<Rightarrow> [] | Some m \<Rightarrow> [Call_predict fb ctx sa])
                @ map (\<lambda>(name, est). Call_estimate_policy_value name inputs)
                    (ope_estimators_dict self),
              self,
              Inr (map (\<lambda>(name, est). (name, projr (estimate_policy_value est inputs)))
                     (ope_estimators_dict self))) \<and>
           (\<forall>name\<in>estimator_name ` set ests.
              point_payloads name (fst (estimate_policy_values R self sa)) = [inputs]) \<and>
           (\<forall>name. name \<notin> estimator_name ` set ests \<longrightarrow>
              point_payloads name (fst (estimate_policy_values R self sa)) = []) \<and>
           (\<forall>name. interval_payloads name (fst (estimate_policy_values R self sa)) = []) \<and>
           (\<forall>estimates. snd (snd (estimate_policy_values R self sa)) = Inr estimates \<longrightarrow>
              dict_keys estimates = dict_keys (ope_estimators_dict self) \<and>
              set (dict_keys estimates) = estimator_name ` set ests \<and>
              distinct (dict_keys estimates) \<and>
              (\<forall>name est. dict_get (ope_estimators_dict self) name = Some est \<longrightarrow>
                 (\<exists>v. estimate_policy_value est inputs = Inr v \<and>
                      dict_get estimates name = Some v)))"
proof -
  let ?pcalls = "case regression_model self of None \<Rightarrow> [] | Some m \<Rightarrow> [Call_predict fb ctx sa]"
  let ?reg = "ope_estimators_dict self"
  from inputs_built [OF assms(1) assms(2) assms(3)] obtain inputs where
    built: "create_estimator_inputs R self sa = (?pcalls, self, Inr inputs)" by blast
  from registry_items [OF assms(1)] have dist: "distinct (map fst ?reg)"
    and vals: "snd ` set ?reg \<subseteq> set ests"
    and keys: "fst ` set ?reg = estimator_name ` set ests" by blast+
  from built assms(4) have ret: "\<forall>est\<in>set ests. \<exists>v. estimate_policy_value est inputs = Inr v"
    by simp
  with vals have ret': "\<forall>item\<in>set ?reg. \<exists>v. estimate_policy_value (snd item) inputs = Inr v"
    by auto
  let ?estimates = "map (\<lambda>item. (fst item, projr (estimate_policy_value (snd item) inputs))) ?reg"
  have run: "estimate_policy_values R self sa =
           (?pcalls @ map (\<lambda>item. Call_estimate_policy_value (fst item) inputs) ?reg,
            self, Inr ?estimates)"
    by (rule estimate_policy_values_all_return [OF built dist ret'])
  have c2: "estimate_policy_values R self sa =
             (?pcalls @ map (\<lambda>(name, est). Call_estimate_policy_value name inputs) ?reg,
              self,
              Inr (map (\<lambda>(name, est). (name, projr (estimate_policy_value est inputs))) ?reg))"
    unfolding run by (simp add: split_def)
  have c3: "\<forall>name\<in>estimator_name ` set ests.
              point_payloads name (fst (estimate_policy_values R self sa)) = [inputs]"
  proof
    fix name assume "name \<in> estimator_name ` set ests"
    with keys have "name \<in> fst ` set ?reg" by simp
    from filter_key_distinct [OF dist this]
    show "point_payloads name (fst (estimate_policy_values R self sa)) = [inputs]"
      by (simp add: run point_payloads_append point_payloads_point_calls
            payloads_of_predict_calls)
  qed
  have c4: "\<forall>name. name \<notin> estimator_name ` set ests \<longrightarrow>
              point_payloads name (fst (estimate_policy_values R self sa)) = []"
  proof (intro allI impI)
    fix name assume "name \<notin> estimator_name ` set ests"
    with keys have "name \<notin> fst ` set ?reg" by simp
    from filter_key_absent [OF this]
    show "point_payloads name (fst (estimate_policy_values R self sa)) = []"
      by (simp add: run point_payloads_append point_payloads_point_calls
            payloads_of_predict_calls)
  qed
  have c5: "\<forall>name. interval_payloads name (fst (estimate_policy_values R self sa)) = []"
    by (simp add: run interval_payloads_append interval_payloads_point_calls
          payloads_of_predict_calls)
  have c6: "\<forall>estimates. snd (snd (estimate_policy_values R self sa)) = Inr estimates \<longrightarrow>
              dict_keys estimates = dict_keys ?reg \<and>
              set (dict_keys estimates) = estimator_name ` set ests \<and>
              distinct (dict_keys estimates) \<and>
              (\<forall>name est. dict_get ?reg name = Some est \<longrightarrow>
                 (\<exists>v. estimate_policy_value est inputs = Inr v \<and>
                      dict_get estimates name = Some v))"
  proof (intro allI impI)
    fix vals assume "snd (snd (estimate_policy_values R self sa)) = Inr vals"
    with run have v: "vals = ?estimates" by simp
    have k: "dict_keys vals = dict_keys ?reg"
      unfolding v by (simp add: dict_keys_def comp_def)
    have s: "set (dict_keys vals) = estimator_name ` set ests"
      unfolding k using keys by (simp add: dict_keys_def)
    have d: "distinct (dict_keys vals)"
      unfolding k using dist by (simp add: dict_keys_def)
    have g: "\<forall>name est. dict_get ?reg name = Some est \<longrightarrow>
                 (\<exists>v. estimate_policy_value est inputs = Inr v \<and>
                      dict_get vals name = Some v)"
    proof (intro allI impI)
      fix name est assume get: "dict_get ?reg name = Some est"
      then have "(name, est) \<in> set ?reg" by (simp add: dict_get_def map_of_SomeD)
      with ret' obtain x where x: "estimate_policy_value est inputs = Inr x" by force
      from get have "dict_get vals name = Some (projr (estimate_policy_value est inputs))"
        unfolding v
        using map_of_map_values [of "\<lambda>e. projr (estimate_policy_value e inputs)" ?reg name]
        by (simp add: dict_get_def)
      with x show "\<exists>v. estimate_policy_value est inputs = Inr v \<and> dict_get vals name = Some v"
        by simp
    qed
    from k s d g show "dict_keys vals = dict_keys ?reg \<and>
              set (dict_keys vals) = estimator_name ` set ests \<and>
              distinct (dict_keys vals) \<and>
              (\<forall>name est. dict_get ?reg name = Some est \<longrightarrow>
                 (\<exists>v. estimate_policy_value est inputs = Inr v \<and>
                      dict_get vals name = Some v))"
      by blast
  qed
  from built c2 c3 c4 c5 c6 show ?thesis by blast
qed

theorem estimate_policy_values_shared_payload_witness:
  "snd (post_init flag_model scenario_feedback
          [constant_estimator ''ipw'' (1/2), python_estimator ''dm'' (1/4)] None (Some False))
     = Inr \<lparr>bandit_feedback = scenario_feedback,
            ope_estimators = [constant_estimator ''ipw'' (1/2), python_estimator ''dm'' (1/4)],
            action_context = None, regression_model = Some True,
            ope_estimators_dict =
              [(''ipw'', constant_estimator ''ipw'' (1/2)),
               (''dm'', python_estimator ''dm'' (1/4))]\<rparr> \<and>
   fits scenario_feedback scenario_selected_actions \<and>
   estimate_policy_values flag_model
     \<lparr>bandit_feedback = scenario_feedback,
      ope_estimators = [constant_estimator ''ipw'' (1/2), python_estimator ''dm'' (1/4)],
      action_context = None, regression_model = Some True,
      ope_estimators_dict =
        [(''ipw'', constant_estimator ''ipw'' (1/2)), (''dm'', python_estimator ''dm'' (1/4))]\<rparr>
     scenario_selected_actions
     = ([Call_predict scenario_feedback None scenario_selected_actions,
         Call_estimate_policy_value ''ipw''
           [(''reward'', FloatArray [1, 0, 1]), (''pscore'', FloatArray [1/2, 1/2, 1/2]),
            (''action_match'', BoolArray [True, True, True]),
            (''estimated_rewards_by_reg_model'', FloatArray3 [[[0, 0]], [[0, 0]], [[0, 0]]])],
         Call_estimate_policy_value ''dm''
           [(''reward'', FloatArray [1, 0, 1]), (''pscore'', FloatArray [1/2, 1/2, 1/2]),
            (''action_match'', BoolArray [True, True, True]),
            (''estimated_rewards_by_reg_model'', FloatArray3 [[[0, 0]], [[0, 0]], [[0, 0]]])]],
        \<lparr>bandit_feedback = scenario_feedback,
         ope_estimators = [constant_estimator ''ipw'' (1/2), python_estimator ''dm'' (1/4)],
         action_context = None, regression_model = Some True,
         ope_estimators_dict =
           [(''ipw'', constant_estimator ''ipw'' (1/2)),
            (''dm'', python_estimator ''dm'' (1/4))]\<rparr>,
        Inr [(''ipw'', Numpy_float64 (Finite (1/2))), (''dm'', Python_float (Finite (1/4)))])"
proof -
  let ?ests = "[constant_estimator ''ipw'' (1/2), python_estimator ''dm'' (1/4)]"
  let ?self = "\<lparr>bandit_feedback = scenario_feedback, ope_estimators = ?ests,
      action_context = None, regression_model = Some True,
      ope_estimators_dict =
        [(''ipw'', constant_estimator ''ipw'' (1/2)), (''dm'', python_estimator ''dm'' (1/4))]\<rparr>"
  let ?inputs = "[(''reward'', FloatArray [1, 0, 1]), (''pscore'', FloatArray [1/2, 1/2, 1/2]),
            (''action_match'', BoolArray [True, True, True]),
            (''estimated_rewards_by_reg_model'', FloatArray3 [[[0, 0]], [[0, 0]], [[0, 0]]])]"
  have names: "estimator_name (constant_estimator n v) = n"
    "estimator_name (python_estimator n v) = n" for n v
    by (simp_all add: constant_estimator_def python_estimator_def)
  have h1: "snd (post_init flag_model scenario_feedback ?ests None (Some False)) = Inr ?self"
    by (simp add: post_init_def flag_model_def Let_def names)
  have h3: "\<forall>m. regression_model ?self = Some m \<longrightarrow>
              (\<exists>est. predict flag_model m scenario_feedback None scenario_selected_actions
                       = Inr est)"
    by (simp add: flag_model_def)
  have h4: "\<forall>inputs. snd (snd (create_estimator_inputs flag_model ?self
                                 scenario_selected_actions)) = Inr inputs \<longrightarrow>
           (\<forall>est\<in>set ?ests. \<exists>v. estimate_policy_value est inputs = Inr v)"
    by (simp add: constant_estimator_def python_estimator_def)
  have built: "create_estimator_inputs flag_model ?self scenario_selected_actions
                 = ([Call_predict scenario_feedback None scenario_selected_actions], ?self,
                    Inr ?inputs)"
    by (simp add: create_estimator_inputs_unfold scenario_action_match flag_model_def)
       (simp add: scenario_feedback_def scenario_selected_actions_def)
  from estimate_policy_values_shared_payload [OF h1 scenario_fits h3 h4]
  obtain inputs where
    b: "create_estimator_inputs flag_model ?self scenario_selected_actions =
             ((case regression_model ?self of
                 None \<Rightarrow> []
               | Some m \<Rightarrow> [Call_predict scenario_feedback None scenario_selected_actions]),
              ?self, Inr inputs)"
    and run: "estimate_policy_values flag_model ?self scenario_selected_actions =
             ((case regression_model ?self of
                 None \<Rightarrow> []
               | Some m \<Rightarrow> [Call_predict scenario_feedback None scenario_selected_actions])
                @ map (\<lambda>(name, est). Call_estimate_policy_value name inputs)
                    (ope_estimators_dict ?self),
              ?self,
              Inr (map (\<lambda>(name, est). (name, projr (estimate_policy_value est inputs)))
                     (ope_estimators_dict ?self)))"
    by blast
  from b built have "inputs = ?inputs" by simp
  with run have r: "estimate_policy_values flag_model ?self scenario_selected_actions
     = ([Call_predict scenario_feedback None scenario_selected_actions,
         Call_estimate_policy_value ''ipw'' ?inputs,
         Call_estimate_policy_value ''dm'' ?inputs],
        ?self,
        Inr [(''ipw'', Numpy_float64 (Finite (1/2))), (''dm'', Python_float (Finite (1/4)))])"
    by (simp add: constant_estimator_def python_estimator_def)
  show ?thesis by (intro conjI) (rule h1 scenario_fits r)+
qed

section \<open>The summary reshapes the two estimates\<close>





section \<open>Relative estimation error\<close>

lemma np_abs_truediv_sub:
  "np_abs_truediv (py_sub v gt) gt =
     (if \<not> is_numpy v \<and> \<not> is_numpy gt \<and> float_of gt = Finite 0 then Inl ZeroDivisionError
      else Inr (float_abs_div (float_sub (float_of v) (float_of gt)) (float_of gt)))"
  by (simp add: np_abs_truediv_def py_sub_def is_numpy_def float_of_def split: number.splits)

lemma float_relative_error_finite:
  "float_abs_div (float_sub (Finite x) (Finite g)) (Finite g)
     = (if g = 0 then (if x = 0 then NaN else PosInf) else Finite \<bar>(x - g) / g\<bar>)"
  by simp

lemma relative_error_loop_all_return:
  assumes "\<forall>item\<in>set items.
             \<exists>v. estimate_policy_value (snd item) inputs = Inr v \<and>
                 (is_numpy v \<or> is_numpy gt \<or> float_of gt \<noteq> Finite 0)"
    and "distinct (map fst items)" and "fst ` set d \<inter> fst ` set items = {}"
  shows "relative_error_loop inputs gt items d =
           (map (\<lambda>item. Call_estimate_policy_value (fst item) inputs) items,
            Inr (d @ map (\<lambda>item. (fst item,
                    float_abs_div
                      (float_sub (float_of (projr (estimate_policy_value (snd item) inputs)))
                         (float_of gt))
                      (float_of gt))) items))"
  using assms
proof (induction items arbitrary: d)
  case Nil
  then show ?case by simp
next
  case (Cons item items)
  obtain name est where item: "item = (name, est)" by (cases item)
  from Cons.prems(1) item obtain v where v: "estimate_policy_value est inputs = Inr v"
    and ok: "is_numpy v \<or> is_numpy gt \<or> float_of gt \<noteq> Finite 0" by auto
  let ?q = "float_abs_div (float_sub (float_of v) (float_of gt)) (float_of gt)"
  from ok have q: "np_abs_truediv (py_sub v gt) gt = Inr ?q"
    by (auto simp: np_abs_truediv_sub)
  from Cons.prems(3) item have fresh: "name \<notin> fst ` set d" by auto
  have step: "dict_setitem d name ?q = d @ [(name, ?q)]"
    by (rule dict_setitem_fresh [OF fresh])
  have rest: "relative_error_loop inputs gt items (d @ [(name, ?q)]) =
           (map (\<lambda>item. Call_estimate_policy_value (fst item) inputs) items,
            Inr ((d @ [(name, ?q)]) @ map (\<lambda>item. (fst item,
                    float_abs_div
                      (float_sub (float_of (projr (estimate_policy_value (snd item) inputs)))
                         (float_of gt))
                      (float_of gt))) items))"
  proof (rule Cons.IH)
    show "\<forall>item\<in>set items.
             \<exists>v. estimate_policy_value (snd item) inputs = Inr v \<and>
                 (is_numpy v \<or> is_numpy gt \<or> float_of gt \<noteq> Finite 0)"
      using Cons.prems(1) by simp
    show "distinct (map fst items)" using Cons.prems(2) by simp
    show "fst ` set (d @ [(name, ?q)]) \<inter> fst ` set items = {}"
      using Cons.prems(2) Cons.prems(3) item by auto
  qed
  show ?case by (simp add: item v q step rest)
qed

lemma relative_error_loop_raises:
  assumes "\<forall>item\<in>set items. \<exists>v. estimate_policy_value (snd item) inputs = Inr v"
    and "\<not> is_numpy gt" and "float_of gt = Finite 0"
    and "\<exists>item\<in>set items. \<exists>v. estimate_policy_value (snd item) inputs = Inr v \<and> \<not> is_numpy v"
  shows "snd (relative_error_loop inputs gt items d) = Inl ZeroDivisionError"
  using assms(1) assms(4)
proof (induction items arbitrary: d)
  case Nil
  then show ?case by simp
next
  case (Cons item items)
  obtain name est where item: "item = (name, est)" by (cases item)
  from Cons.prems(1) item obtain v where v: "estimate_policy_value est inputs = Inr v" by auto
  show ?case
  proof (cases "is_numpy v")
    case False
    with assms(2) assms(3) have "np_abs_truediv (py_sub v gt) gt = Inl ZeroDivisionError"
      by (simp add: np_abs_truediv_sub)
    with v show ?thesis by (simp add: item)
  next
    case True
    let ?q = "float_abs_div (float_sub (float_of v) (float_of gt)) (float_of gt)"
    from True have q: "np_abs_truediv (py_sub v gt) gt = Inr ?q"
      by (simp add: np_abs_truediv_sub)
    from Cons.prems(2) item v True
    have ex: "\<exists>item\<in>set items. \<exists>v. estimate_policy_value (snd item) inputs = Inr v \<and> \<not> is_numpy v"
      by auto
    from Cons.prems(1) have all: "\<forall>item\<in>set items. \<exists>v. estimate_policy_value (snd item) inputs = Inr v"
      by simp
    from Cons.IH [OF all ex, of "dict_setitem d name ?q"]
    show ?thesis by (auto simp: item v q split: prod.splits)
  qed
qed

text \<open>
  A zero ground truth does not always make \<open>evaluate_performance_of_estimators\<close> fail. The
  estimator of \<open>scenario_ope\<close> returns a \<open>numpy.float64\<close>: with the ground truth \<open>0.0\<close> the
  method returns the dictionary that gives this estimator the relative error \<open>inf\<close>. And
  with no estimator registered the method returns the empty dictionary.
\<close>

theorem zero_ground_truth_returns:
  "evaluate_performance_of_estimators flag_model scenario_ope scenario_selected_actions
     (Python_float (Finite 0))
     = ([Call_estimate_policy_value ''rm''
           [(''reward'', FloatArray [1, 0, 1]), (''pscore'', FloatArray [1/2, 1/2, 1/2]),
            (''action_match'', BoolArray [True, True, True])]],
        scenario_ope, Inr [(''rm'', PosInf)]) \<and>
   evaluate_performance_of_estimators flag_model
     (scenario_ope\<lparr>ope_estimators := [], ope_estimators_dict := []\<rparr>) scenario_selected_actions
     (Python_float (Finite 0))
     = ([], scenario_ope\<lparr>ope_estimators := [], ope_estimators_dict := []\<rparr>, Inr [])"
proof -
  have ev: "estimate_policy_value (constant_estimator n v) inps = Inr (Numpy_float64 (Finite v))"
    for n v inps by (simp add: constant_estimator_def)
  have built: "create_estimator_inputs flag_model (scenario_ope\<lparr>ope_estimators := es,
                   ope_estimators_dict := d\<rparr>) scenario_selected_actions
                 = ([], scenario_ope\<lparr>ope_estimators := es, ope_estimators_dict := d\<rparr>,
                    Inr [(''reward'', FloatArray [1, 0, 1]),
                         (''pscore'', FloatArray [1/2, 1/2, 1/2]),
                         (''action_match'', BoolArray [True, True, True])])" for es d
    by (simp add: create_estimator_inputs_unfold scenario_ope_def scenario_action_match)
       (simp add: scenario_feedback_def)
  have same: "scenario_ope\<lparr>ope_estimators := [constant_estimator ''rm'' (1/2)],
                ope_estimators_dict := [(''rm'', constant_estimator ''rm'' (1/2))]\<rparr> = scenario_ope"
    by (simp add: scenario_ope_def)
  have reg: "ope_estimators_dict scenario_ope = [(''rm'', constant_estimator ''rm'' (1/2))]"
    by (simp add: scenario_ope_def)
  from built [where es = "[constant_estimator ''rm'' (1/2)]"
                and d = "[(''rm'', constant_estimator ''rm'' (1/2))]"]
  have b1: "create_estimator_inputs flag_model scenario_ope scenario_selected_actions
                 = ([], scenario_ope,
                    Inr [(''reward'', FloatArray [1, 0, 1]),
                         (''pscore'', FloatArray [1/2, 1/2, 1/2]),
                         (''action_match'', BoolArray [True, True, True])])"
    unfolding same .
  have r1: "evaluate_performance_of_estimators flag_model scenario_ope scenario_selected_actions
     (Python_float (Finite 0))
     = ([Call_estimate_policy_value ''rm''
           [(''reward'', FloatArray [1, 0, 1]), (''pscore'', FloatArray [1/2, 1/2, 1/2]),
            (''action_match'', BoolArray [True, True, True])]],
        scenario_ope, Inr [(''rm'', PosInf)])"
    by (simp add: evaluate_performance_of_estimators_def b1 reg ev np_abs_truediv_sub
          is_numpy_def float_of_def)
  have r2: "evaluate_performance_of_estimators flag_model
     (scenario_ope\<lparr>ope_estimators := [], ope_estimators_dict := []\<rparr>) scenario_selected_actions
     (Python_float (Finite 0))
     = ([], scenario_ope\<lparr>ope_estimators := [], ope_estimators_dict := []\<rparr>, Inr [])"
    by (simp add: evaluate_performance_of_estimators_def built)
  show ?thesis by (intro conjI) (rule r1 r2)+
qed

text \<open>
  Claim C2, amended. Take an orchestrator that construction returned, selected actions that
  fit its feedback, a regression model (if one is configured) whose \<open>predict\<close> returns, and
  estimators whose point-estimate operation returns on the dictionary built. Whenever the
  division of line 308 has a value for every estimator, that is when the ground truth is
  not zero, or it is a \<open>numpy.float64\<close>, or every estimate is one,
  \<open>evaluate_performance_of_estimators\<close> calls the point-estimate operation of every
  registered estimator once and returns, under every registered name in the order of the
  registry, the absolute value of (estimate - ground truth) / ground truth; for a finite
  estimate \<open>x\<close> and a finite ground truth \<open>g\<close> that is not zero this is the float
  \<open>\<bar>(x - g) / g\<bar>\<close>, and for \<open>g = 0\<close> it is \<open>inf\<close>, or NaN when \<open>x = 0\<close>. When the ground truth is
  a zero of the language and some estimator returns a float of the language, the method
  raises \<open>ZeroDivisionError\<close>. With no estimator in the list it returns the empty dictionary
  whatever the ground truth.
\<close>

theorem relative_estimation_error_formula:
  assumes "snd (post_init R fb ests ctx rm) = Inr self"
    and "fits fb sa"
    and "\<forall>m. regression_model self = Some m \<longrightarrow> (\<exists>est. predict R m fb ctx sa = Inr est)"
    and "\<forall>inputs. snd (snd (create_estimator_inputs R self sa)) = Inr inputs \<longrightarrow>
           (\<forall>est\<in>set ests. \<exists>v. estimate_policy_value est inputs = Inr v)"
  shows "\<exists>inputs.
           create_estimator_inputs R self sa =
             ((case regression_model self of None \<Rightarrow> [] | Some m \<Rightarrow> [Call_predict fb ctx sa]),
              self, Inr inputs) \<and>
           (float_of gt \<noteq> Finite 0 \<or> is_numpy gt \<or>
            (\<forall>est\<in>set ests. is_numpy (projr (estimate_policy_value est inputs))) \<longrightarrow>
              evaluate_performance_of_estimators R self sa gt =
                ((case regression_model self of None \<Rightarrow> [] | Some m \<Rightarrow> [Call_predict fb ctx sa])
                   @ map (\<lambda>(name, est). Call_estimate_policy_value name inputs)
                       (ope_estimators_dict self),
                 self,
                 Inr (map (\<lambda>(name, est).
                        (name,
                         float_abs_div
                           (float_sub (float_of (projr (estimate_policy_value est inputs)))
                              (float_of gt))
                           (float_of gt)))
                      (ope_estimators_dict self)))) \<and>
           (\<forall>x g. float_abs_div (float_sub (Finite x) (Finite g)) (Finite g)
                    = (if g = 0 then (if x = 0 then NaN else PosInf)
                       else Finite \<bar>(x - g) / g\<bar>)) \<and>
           (float_of gt = Finite 0 \<and> \<not> is_numpy gt \<and>
            (\<exists>est\<in>set (map snd (ope_estimators_dict self)).
               \<not> is_numpy (projr (estimate_policy_value est inputs))) \<longrightarrow>
              snd (snd (evaluate_performance_of_estimators R self sa gt))
                = Inl ZeroDivisionError) \<and>
           (ests = [] \<longrightarrow>
              evaluate_performance_of_estimators R self sa gt =
                ((case regression_model self of None \<Rightarrow> [] | Some m \<Rightarrow> [Call_predict fb ctx sa]),
                 self, Inr []))"
proof -
  let ?pcalls = "case regression_model self of None \<Rightarrow> [] | Some m \<Rightarrow> [Call_predict fb ctx sa]"
  let ?reg = "ope_estimators_dict self"
  from inputs_built [OF assms(1) assms(2) assms(3)] obtain inputs where
    built: "create_estimator_inputs R self sa = (?pcalls, self, Inr inputs)" by blast
  from registry_items [OF assms(1)] have dist: "distinct (map fst ?reg)"
    and vals: "snd ` set ?reg \<subseteq> set ests" by blast+
  from post_init_Inr [OF assms(1)] have reg: "?reg = register_estimators [] ests" by simp
  from built assms(4) have ret: "\<forall>est\<in>set ests. \<exists>v. estimate_policy_value est inputs = Inr v"
    by simp
  with vals have ret': "\<forall>item\<in>set ?reg. \<exists>v. estimate_policy_value (snd item) inputs = Inr v"
    by auto
  have c2: "float_of gt \<noteq> Finite 0 \<or> is_numpy gt \<or>
            (\<forall>est\<in>set ests. is_numpy (projr (estimate_policy_value est inputs))) \<longrightarrow>
              evaluate_performance_of_estimators R self sa gt =
                (?pcalls @ map (\<lambda>(name, est). Call_estimate_policy_value name inputs) ?reg,
                 self,
                 Inr (map (\<lambda>(name, est).
                        (name,
                         float_abs_div
                           (float_sub (float_of (projr (estimate_policy_value est inputs)))
                              (float_of gt))
                           (float_of gt))) ?reg))"
  proof
    assume ok: "float_of gt \<noteq> Finite 0 \<or> is_numpy gt \<or>
            (\<forall>est\<in>set ests. is_numpy (projr (estimate_policy_value est inputs)))"
    have "\<forall>item\<in>set ?reg.
             \<exists>v. estimate_policy_value (snd item) inputs = Inr v \<and>
                 (is_numpy v \<or> is_numpy gt \<or> float_of gt \<noteq> Finite 0)"
    proof
      fix item assume m: "item \<in> set ?reg"
      with ret' obtain v where v: "estimate_policy_value (snd item) inputs = Inr v" by blast
      from m vals have "snd item \<in> set ests" by auto
      with ok v have "is_numpy v \<or> is_numpy gt \<or> float_of gt \<noteq> Finite 0" by force
      with v show "\<exists>v. estimate_policy_value (snd item) inputs = Inr v \<and>
                 (is_numpy v \<or> is_numpy gt \<or> float_of gt \<noteq> Finite 0)" by blast
    qed
    from relative_error_loop_all_return [OF this dist, of "[]"]
    have "relative_error_loop inputs gt ?reg [] =
           (map (\<lambda>item. Call_estimate_policy_value (fst item) inputs) ?reg,
            Inr (map (\<lambda>item. (fst item,
                    float_abs_div
                      (float_sub (float_of (projr (estimate_policy_value (snd item) inputs)))
                         (float_of gt))
                      (float_of gt))) ?reg))"
      by simp
    with built show "evaluate_performance_of_estimators R self sa gt =
                (?pcalls @ map (\<lambda>(name, est). Call_estimate_policy_value name inputs) ?reg,
                 self,
                 Inr (map (\<lambda>(name, est).
                        (name,
                         float_abs_div
                           (float_sub (float_of (projr (estimate_policy_value est inputs)))
                              (float_of gt))
                           (float_of gt))) ?reg))"
      by (simp add: evaluate_performance_of_estimators_def split_def)
  qed
  have c3: "\<forall>x g. float_abs_div (float_sub (Finite x) (Finite g)) (Finite g)
                    = (if g = 0 then (if x = 0 then NaN else PosInf)
                       else Finite \<bar>(x - g) / g\<bar>)"
    by (simp add: float_relative_error_finite)
  have c4: "float_of gt = Finite 0 \<and> \<not> is_numpy gt \<and>
            (\<exists>est\<in>set (map snd ?reg).
               \<not> is_numpy (projr (estimate_policy_value est inputs))) \<longrightarrow>
              snd (snd (evaluate_performance_of_estimators R self sa gt))
                = Inl ZeroDivisionError"
  proof
    assume a: "float_of gt = Finite 0 \<and> \<not> is_numpy gt \<and>
            (\<exists>est\<in>set (map snd ?reg).
               \<not> is_numpy (projr (estimate_policy_value est inputs)))"
    then obtain item where m: "item \<in> set ?reg"
      and py: "\<not> is_numpy (projr (estimate_policy_value (snd item) inputs))" by auto
    from m ret' obtain v where v: "estimate_policy_value (snd item) inputs = Inr v" by blast
    with py m have ex: "\<exists>item\<in>set ?reg.
        \<exists>v. estimate_policy_value (snd item) inputs = Inr v \<and> \<not> is_numpy v" by force
    from a have g1: "\<not> is_numpy gt" and g0: "float_of gt = Finite 0" by simp_all
    from relative_error_loop_raises [OF ret' g1 g0 ex, of "[]"] built
    show "snd (snd (evaluate_performance_of_estimators R self sa gt)) = Inl ZeroDivisionError"
      by (auto simp: evaluate_performance_of_estimators_def split: prod.splits)
  qed
  have c5: "ests = [] \<longrightarrow>
              evaluate_performance_of_estimators R self sa gt = (?pcalls, self, Inr [])"
    using built by (simp add: evaluate_performance_of_estimators_def reg)
  from built c2 c3 c4 c5 show ?thesis by blast
qed

theorem relative_estimation_error_formula_witness:
  "snd (post_init flag_model scenario_feedback
          [constant_estimator ''ipw'' (1/2), python_estimator ''dm'' (1/4)] None None)
     = Inr \<lparr>bandit_feedback = scenario_feedback,
            ope_estimators = [constant_estimator ''ipw'' (1/2), python_estimator ''dm'' (1/4)],
            action_context = None, regression_model = None,
            ope_estimators_dict =
              [(''ipw'', constant_estimator ''ipw'' (1/2)),
               (''dm'', python_estimator ''dm'' (1/4))]\<rparr> \<and>
   fits scenario_feedback scenario_selected_actions \<and>
   evaluate_performance_of_estimators flag_model
     \<lparr>bandit_feedback = scenario_feedback,
      ope_estimators = [constant_estimator ''ipw'' (1/2), python_estimator ''dm'' (1/4)],
      action_context = None, regression_model = None,
      ope_estimators_dict =
        [(''ipw'', constant_estimator ''ipw'' (1/2)), (''dm'', python_estimator ''dm'' (1/4))]\<rparr>
     scenario_selected_actions (Python_float (Finite (1/2)))
     = ([Call_estimate_policy_value ''ipw''
           [(''reward'', FloatArray [1, 0, 1]), (''pscore'', FloatArray [1/2, 1/2, 1/2]),
            (''action_match'', BoolArray [True, True, True])],
         Call_estimate_policy_value ''dm''
           [(''reward'', FloatArray [1, 0, 1]), (''pscore'', FloatArray [1/2, 1/2, 1/2]),
            (''action_match'', BoolArray [True, True, True])]],
        \<lparr>bandit_feedback = scenario_feedback,
         ope_estimators = [constant_estimator ''ipw'' (1/2), python_estimator ''dm'' (1/4)],
         action_context = None, regression_model = None,
         ope_estimators_dict =
           [(''ipw'', constant_estimator ''ipw'' (1/2)),
            (''dm'', python_estimator ''dm'' (1/4))]\<rparr>,
        Inr [(''ipw'', Finite 0), (''dm'', Finite (1/2))]) \<and>
   snd (snd (evaluate_performance_of_estimators flag_model
     \<lparr>bandit_feedback = scenario_feedback,
      ope_estimators = [constant_estimator ''ipw'' (1/2), python_estimator ''dm'' (1/4)],
      action_context = None, regression_model = None,
      ope_estimators_dict =
        [(''ipw'', constant_estimator ''ipw'' (1/2)), (''dm'', python_estimator ''dm'' (1/4))]\<rparr>
     scenario_selected_actions (Python_float (Finite 0))))
     = Inl ZeroDivisionError \<and>
   snd (snd (evaluate_performance_of_estimators flag_model
     \<lparr>bandit_feedback = scenario_feedback,
      ope_estimators = [constant_estimator ''ipw'' (1/2), python_estimator ''dm'' (1/4)],
      action_context = None, regression_model = None,
      ope_estimators_dict =
        [(''ipw'', constant_estimator ''ipw'' (1/2)), (''dm'', python_estimator ''dm'' (1/4))]\<rparr>
     scenario_selected_actions (Numpy_float64 (Finite 0))))
     = Inr [(''ipw'', PosInf), (''dm'', PosInf)]"
proof -
  let ?ests = "[constant_estimator ''ipw'' (1/2), python_estimator ''dm'' (1/4)]"
  let ?self = "\<lparr>bandit_feedback = scenario_feedback, ope_estimators = ?ests,
      action_context = None, regression_model = (None :: bool option),
      ope_estimators_dict =
        [(''ipw'', constant_estimator ''ipw'' (1/2)), (''dm'', python_estimator ''dm'' (1/4))]\<rparr>"
  let ?inputs = "[(''reward'', FloatArray [1, 0, 1]), (''pscore'', FloatArray [1/2, 1/2, 1/2]),
            (''action_match'', BoolArray [True, True, True])]"
  have names: "estimator_name (constant_estimator n v) = n"
    "estimator_name (python_estimator n v) = n" for n v
    by (simp_all add: constant_estimator_def python_estimator_def)
  have ev: "estimate_policy_value (constant_estimator n v) inps = Inr (Numpy_float64 (Finite v))"
    "estimate_policy_value (python_estimator n v) inps = Inr (Python_float (Finite v))"
    for n v inps
    by (simp_all add: constant_estimator_def python_estimator_def)
  have h1: "snd (post_init flag_model scenario_feedback ?ests None None) = Inr ?self"
    by (simp add: post_init_def Let_def names)
  have h3: "\<forall>m. regression_model ?self = Some m \<longrightarrow>
              (\<exists>est. predict flag_model m scenario_feedback None scenario_selected_actions
                       = Inr est)"
    by simp
  have h4: "\<forall>inputs. snd (snd (create_estimator_inputs flag_model ?self
                                 scenario_selected_actions)) = Inr inputs \<longrightarrow>
           (\<forall>est\<in>set ?ests. \<exists>v. estimate_policy_value est inputs = Inr v)"
    by (simp add: ev)
  have built: "create_estimator_inputs flag_model ?self scenario_selected_actions
                 = ([], ?self, Inr ?inputs)"
    by (simp add: create_estimator_inputs_unfold scenario_action_match)
       (simp add: scenario_feedback_def)
  note inst = relative_estimation_error_formula [OF h1 scenario_fits h3 h4]
  from inst [of "Python_float (Finite (1/2))"] built
  have r1: "evaluate_performance_of_estimators flag_model ?self scenario_selected_actions
              (Python_float (Finite (1/2)))
     = ([Call_estimate_policy_value ''ipw'' ?inputs, Call_estimate_policy_value ''dm'' ?inputs],
        ?self, Inr [(''ipw'', Finite 0), (''dm'', Finite (1/2))])"
    by (auto simp: ev float_of_def is_numpy_def)
  from inst [of "Python_float (Finite 0)"] built
  have r2: "snd (snd (evaluate_performance_of_estimators flag_model ?self
              scenario_selected_actions (Python_float (Finite 0)))) = Inl ZeroDivisionError"
    by (auto simp: ev float_of_def is_numpy_def)
  from inst [of "Numpy_float64 (Finite 0)"] built
  have r3: "snd (snd (evaluate_performance_of_estimators flag_model ?self
              scenario_selected_actions (Numpy_float64 (Finite 0))))
     = Inr [(''ipw'', PosInf), (''dm'', PosInf)]"
    by (auto simp: ev float_of_def is_numpy_def)
  show ?thesis by (intro conjI) (rule h1 scenario_fits r1 r2 r3)+
qed

section \<open>An empty estimator list\<close>

text \<open>
  An orchestrator with no estimator still builds the estimator inputs in every evaluation
  method, and that can raise. Here the feedback has two rounds, logged at the positions 0
  and 1, and the selected actions are a matrix of two rows and one column: construction
  with the empty list succeeds, and \<open>estimate_policy_values\<close> raises \<open>IndexError\<close>.
\<close>

theorem empty_estimator_list_raises:
  "post_init flag_model
     \<lparr>n_rounds = 2, n_actions = 2, action = [0, 1], position = [0, 1], reward = [1, 0],
      pscore = [1/2, 1/2], contexts = [[], []]\<rparr> [] None None
     = ([], Inr \<lparr>bandit_feedback =
                  \<lparr>n_rounds = 2, n_actions = 2, action = [0, 1], position = [0, 1],
                   reward = [1, 0], pscore = [1/2, 1/2], contexts = [[], []]\<rparr>,
                ope_estimators = [], action_context = None, regression_model = None,
                ope_estimators_dict = []\<rparr>) \<and>
   estimate_policy_values flag_model
     \<lparr>bandit_feedback =
        \<lparr>n_rounds = 2, n_actions = 2, action = [0, 1], position = [0, 1],
         reward = [1, 0], pscore = [1/2, 1/2], contexts = [[], []]\<rparr>,
      ope_estimators = [], action_context = None, regression_model = None,
      ope_estimators_dict = []\<rparr> [[0], [1]]
     = ([],
        \<lparr>bandit_feedback =
           \<lparr>n_rounds = 2, n_actions = 2, action = [0, 1], position = [0, 1],
            reward = [1, 0], pscore = [1/2, 1/2], contexts = [[], []]\<rparr>,
         ope_estimators = [], action_context = None, regression_model = None,
         ope_estimators_dict = []\<rparr>,
        Inl IndexError)"
proof -
  let ?fb = "\<lparr>n_rounds = 2, n_actions = 2, action = [0, 1], position = [0, 1],
               reward = [1, 0], pscore = [1/2, 1/2], contexts = [[], []]\<rparr>"
  let ?self = "\<lparr>bandit_feedback = ?fb, ope_estimators = [], action_context = None,
                 regression_model = (None :: bool option), ope_estimators_dict = []\<rparr>"
  have c: "post_init flag_model ?fb [] None None = ([], Inr ?self)"
    by (simp add: post_init_def Let_def)
  have "action_match_of ?fb [[0], [1]] = Inl IndexError"
    by (simp add: action_match_of_lengths less_Suc_eq numeral_2_eq_2)
  then have r: "estimate_policy_values flag_model ?self [[0], [1]] = ([], ?self, Inl IndexError)"
    by (simp add: estimate_policy_values_def create_estimator_inputs_unfold)
  show ?thesis by (intro conjI) (rule c r)+
qed

text \<open>
  Claim C10, amended. Construction with an empty estimator list succeeds exactly when the
  resolution of the regression model does: none is given, or the given one is fitted, or
  its \<open>fit\<close> returns. The constructed orchestrator has an empty registry, and each of
  \<open>estimate_policy_values\<close>, \<open>estimate_intervals\<close> and \<open>evaluate_performance_of_estimators\<close>
  makes the calls of \<open>_create_estimator_inputs\<close> and no other, so that no estimator
  operation is called, and returns the empty dictionary when \<open>_create_estimator_inputs\<close>
  returns and raises its exception otherwise. In particular, for selected actions that fit
  the feedback and a regression model (if one is configured) whose \<open>predict\<close> returns, the
  three methods return the empty dictionary.
\<close>

theorem empty_estimator_list_gives_empty_mappings:
  "((\<exists>self. snd (post_init R fb [] ctx rm) = Inr self)
      = (\<forall>m. rm = Some m \<longrightarrow> check_is_fitted R m \<or> (\<exists>m'. fit R m fb ctx = Inr m'))) \<and>
   (\<forall>self. snd (post_init R fb [] ctx rm) = Inr self \<longrightarrow>
      ope_estimators_dict self = [] \<and>
      estimate_policy_values R self sa =
        (fst (create_estimator_inputs R self sa), self,
         case snd (snd (create_estimator_inputs R self sa)) of
           Inl e \<Rightarrow> Inl e | Inr inputs \<Rightarrow> Inr []) \<and>
      estimate_intervals R self sa alpha n rs =
        (fst (create_estimator_inputs R self sa), self,
         case snd (snd (create_estimator_inputs R self sa)) of
           Inl e \<Rightarrow> Inl e | Inr inputs \<Rightarrow> Inr []) \<and>
      evaluate_performance_of_estimators R self sa gt =
        (fst (create_estimator_inputs R self sa), self,
         case snd (snd (create_estimator_inputs R self sa)) of
           Inl e \<Rightarrow> Inl e | Inr inputs \<Rightarrow> Inr []) \<and>
      (\<forall>name. point_payloads name (fst (create_estimator_inputs R self sa)) = [] \<and>
              interval_payloads name (fst (create_estimator_inputs R self sa)) = []) \<and>
      (fits fb sa \<and>
       (\<forall>m. regression_model self = Some m \<longrightarrow> (\<exists>est. predict R m fb ctx sa = Inr est)) \<longrightarrow>
         estimate_policy_values R self sa =
           ((case regression_model self of None \<Rightarrow> [] | Some m \<Rightarrow> [Call_predict fb ctx sa]),
            self, Inr []) \<and>
         estimate_intervals R self sa alpha n rs =
           ((case regression_model self of None \<Rightarrow> [] | Some m \<Rightarrow> [Call_predict fb ctx sa]),
            self, Inr []) \<and>
         evaluate_performance_of_estimators R self sa gt =
           ((case regression_model self of None \<Rightarrow> [] | Some m \<Rightarrow> [Call_predict fb ctx sa]),
            self, Inr [])))"
proof (intro conjI allI impI)
  show "(\<exists>self. snd (post_init R fb [] ctx rm) = Inr self)
      = (\<forall>m. rm = Some m \<longrightarrow> check_is_fitted R m \<or> (\<exists>m'. fit R m fb ctx = Inr m'))"
    by (rule post_init_succeeds_iff)
next
  fix self assume "snd (post_init R fb [] ctx rm) = Inr self"
  from post_init_Inr [OF this] show "ope_estimators_dict self = []" by simp
next
  fix self assume "snd (post_init R fb [] ctx rm) = Inr self"
  from post_init_Inr [OF this] have reg: "ope_estimators_dict self = []" by simp
  show "estimate_policy_values R self sa =
        (fst (create_estimator_inputs R self sa), self,
         case snd (snd (create_estimator_inputs R self sa)) of
           Inl e \<Rightarrow> Inl e | Inr inputs \<Rightarrow> Inr [])"
    by (simp add: estimate_policy_values_unfold reg split: sum.splits)
next
  fix self assume "snd (post_init R fb [] ctx rm) = Inr self"
  from post_init_Inr [OF this] have reg: "ope_estimators_dict self = []" by simp
  show "estimate_intervals R self sa alpha n rs =
        (fst (create_estimator_inputs R self sa), self,
         case snd (snd (create_estimator_inputs R self sa)) of
           Inl e \<Rightarrow> Inl e | Inr inputs \<Rightarrow> Inr [])"
    by (simp add: estimate_intervals_unfold reg split: sum.splits)
next
  fix self assume "snd (post_init R fb [] ctx rm) = Inr self"
  from post_init_Inr [OF this] have reg: "ope_estimators_dict self = []" by simp
  show "evaluate_performance_of_estimators R self sa gt =
        (fst (create_estimator_inputs R self sa), self,
         case snd (snd (create_estimator_inputs R self sa)) of
           Inl e \<Rightarrow> Inl e | Inr inputs \<Rightarrow> Inr [])"
    by (simp add: evaluate_performance_of_estimators_unfold reg split: sum.splits)
next
  fix self name
  show "point_payloads name (fst (create_estimator_inputs R self sa)) = []"
    by (simp add: create_estimator_inputs_calls split: sum.splits option.splits)
  show "interval_payloads name (fst (create_estimator_inputs R self sa)) = []"
    by (simp add: create_estimator_inputs_calls split: sum.splits option.splits)
next
  fix self
  assume c: "snd (post_init R fb [] ctx rm) = Inr self"
    and a: "fits fb sa \<and>
       (\<forall>m. regression_model self = Some m \<longrightarrow> (\<exists>est. predict R m fb ctx sa = Inr est))"
  from post_init_Inr [OF c] have reg: "ope_estimators_dict self = []" by simp
  from a have f: "fits fb sa"
    and p: "\<forall>m. regression_model self = Some m \<longrightarrow> (\<exists>est. predict R m fb ctx sa = Inr est)"
    by blast+
  from inputs_built [OF c f p] obtain inputs where
    built: "create_estimator_inputs R self sa =
           ((case regression_model self of None \<Rightarrow> [] | Some m \<Rightarrow> [Call_predict fb ctx sa]),
            self, Inr inputs)" by blast
  show "estimate_policy_values R self sa =
           ((case regression_model self of None \<Rightarrow> [] | Some m \<Rightarrow> [Call_predict fb ctx sa]),
            self, Inr [])"
    by (simp add: estimate_policy_values_def built reg)
  show "estimate_intervals R self sa alpha n rs =
           ((case regression_model self of None \<Rightarrow> [] | Some m \<Rightarrow> [Call_predict fb ctx sa]),
            self, Inr [])"
    by (simp add: estimate_intervals_def built reg)
  show "evaluate_performance_of_estimators R self sa gt =
           ((case regression_model self of None \<Rightarrow> [] | Some m \<Rightarrow> [Call_predict fb ctx sa]),
            self, Inr [])"
    by (simp add: evaluate_performance_of_estimators_def built reg)
qed

theorem empty_estimator_list_gives_empty_mappings_witness:
  "snd (post_init flag_model scenario_feedback [] None (Some False))
     = Inr \<lparr>bandit_feedback = scenario_feedback, ope_estimators = [], action_context = None,
            regression_model = Some True, ope_estimators_dict = []\<rparr> \<and>
   fits scenario_feedback scenario_selected_actions \<and>
   estimate_policy_values flag_model
     \<lparr>bandit_feedback = scenario_feedback, ope_estimators = [], action_context = None,
      regression_model = Some True, ope_estimators_dict = []\<rparr> scenario_selected_actions
     = ([Call_predict scenario_feedback None scenario_selected_actions],
        \<lparr>bandit_feedback = scenario_feedback, ope_estimators = [], action_context = None,
         regression_model = Some True, ope_estimators_dict = []\<rparr>, Inr []) \<and>
   estimate_intervals flag_model
     \<lparr>bandit_feedback = scenario_feedback, ope_estimators = [], action_context = None,
      regression_model = Some True, ope_estimators_dict = []\<rparr> scenario_selected_actions
     (1/20) 100 None
     = ([Call_predict scenario_feedback None scenario_selected_actions],
        \<lparr>bandit_feedback = scenario_feedback, ope_estimators = [], action_context = None,
         regression_model = Some True, ope_estimators_dict = []\<rparr>, Inr []) \<and>
   evaluate_performance_of_estimators flag_model
     \<lparr>bandit_feedback = scenario_feedback, ope_estimators = [], action_context = None,
      regression_model = Some True, ope_estimators_dict = []\<rparr> scenario_selected_actions
     (Python_float (Finite 0))
     = ([Call_predict scenario_feedback None scenario_selected_actions],
        \<lparr>bandit_feedback = scenario_feedback, ope_estimators = [], action_context = None,
         regression_model = Some True, ope_estimators_dict = []\<rparr>, Inr [])"
proof -
  let ?self = "\<lparr>bandit_feedback = scenario_feedback, ope_estimators = [],
      action_context = None, regression_model = Some True, ope_estimators_dict = []\<rparr>"
  have c: "snd (post_init flag_model scenario_feedback [] None (Some False)) = Inr ?self"
    by (simp add: post_init_def flag_model_def Let_def)
  have a: "fits scenario_feedback scenario_selected_actions \<and>
       (\<forall>m. regression_model ?self = Some m \<longrightarrow>
          (\<exists>est. predict flag_model m scenario_feedback None scenario_selected_actions
                   = Inr est))"
    by (simp add: scenario_fits flag_model_def)
  from empty_estimator_list_gives_empty_mappings
         [where R = flag_model and fb = scenario_feedback and ctx = None and rm = "Some False"
            and sa = scenario_selected_actions and alpha = "1/20" and n = 100 and rs = None
            and gt = "Python_float (Finite 0)",
          THEN conjunct2, rule_format, OF c]
  have "fits scenario_feedback scenario_selected_actions \<and>
       (\<forall>m. regression_model ?self = Some m \<longrightarrow>
          (\<exists>est. predict flag_model m scenario_feedback None scenario_selected_actions
                   = Inr est)) \<longrightarrow>
         estimate_policy_values flag_model ?self scenario_selected_actions =
           ((case regression_model ?self of
               None \<Rightarrow> []
             | Some m \<Rightarrow> [Call_predict scenario_feedback None scenario_selected_actions]),
            ?self, Inr []) \<and>
         estimate_intervals flag_model ?self scenario_selected_actions (1/20) 100 None =
           ((case regression_model ?self of
               None \<Rightarrow> []
             | Some m \<Rightarrow> [Call_predict scenario_feedback None scenario_selected_actions]),
            ?self, Inr []) \<and>
         evaluate_performance_of_estimators flag_model ?self scenario_selected_actions
             (Python_float (Finite 0)) =
           ((case regression_model ?self of
               None \<Rightarrow> []
             | Some m \<Rightarrow> [Call_predict scenario_feedback None scenario_selected_actions]),
            ?self, Inr [])"
    by blast
  from this [rule_format, OF a]
  have r1: "estimate_policy_values flag_model ?self scenario_selected_actions
     = ([Call_predict scenario_feedback None scenario_selected_actions], ?self, Inr [])"
    and r2: "estimate_intervals flag_model ?self scenario_selected_actions (1/20) 100 None
     = ([Call_predict scenario_feedback None scenario_selected_actions], ?self, Inr [])"
    and r3: "evaluate_performance_of_estimators flag_model ?self scenario_selected_actions
               (Python_float (Finite 0))
     = ([Call_predict scenario_feedback None scenario_selected_actions], ?self, Inr [])"
    by simp_all
  show ?thesis by (intro conjI) (rule c scenario_fits r1 r2 r3)+
qed

end
